theory Spec2Isabelle
  imports Complex_Main "HOL-Library.Log_Nat"
begin

section \<open>Bytes, exceptions and \<open>struct\<close>\<close>

text \<open>
  A Python \<open>bytes\<close> object is a list of 8-bit values; HOL's \<open>char\<close> is exactly an
  8-bit value, so \<open>b'DSD '\<close> is the literal \<open>''DSD ''\<close>. A Python \<open>str\<close> is
  represented by its UTF-8 encoding: \<open>text.encode('utf-8')\<close> is then the identity,
  the empty \<open>str\<close> is the empty list, and concatenation and the replacement of ASCII
  characters commute with the encoding. Python integers are unbounded: \<open>int\<close>.
\<close>

type_synonym bytes = "char list"

datatype py_error =
    ValueError string
  | StructError
  | AssertionError
  | ZeroDivisionError
  | OverflowError
  | MemoryError
  | KeyError
  | FileNotFoundError
  | OSError
  | SystemExit int

definition bind_r :: "('e + 'a) \<Rightarrow> ('a \<Rightarrow> 'e + 'b) \<Rightarrow> 'e + 'b" where
  "bind_r m k = (case m of Inl e \<Rightarrow> Inl e | Inr v \<Rightarrow> k v)"

fun le_bytes :: "nat \<Rightarrow> int \<Rightarrow> bytes" where
  "le_bytes 0 v = []"
| "le_bytes (Suc n) v = char_of (v mod 256) # le_bytes n (v div 256)"

fun le_int :: "bytes \<Rightarrow> int" where
  "le_int [] = 0"
| "le_int (b # bs) = of_char b + 256 * le_int bs"

text \<open>\<open>struct.pack('<Q', v)\<close>, \<open>struct.pack('<I', v)\<close> and \<open>struct.pack('>I', v)\<close>:
  \<open>struct.error\<close> when the value does not fit the field.\<close>

definition pack_Q :: "int \<Rightarrow> py_error + bytes" where
  "pack_Q v = (if 0 \<le> v \<and> v < 2 ^ 64 then Inr (le_bytes 8 v) else Inl StructError)"

definition pack_I :: "int \<Rightarrow> py_error + bytes" where
  "pack_I v = (if 0 \<le> v \<and> v < 2 ^ 32 then Inr (le_bytes 4 v) else Inl StructError)"

definition pack_be_I :: "int \<Rightarrow> py_error + bytes" where
  "pack_be_I v = (if 0 \<le> v \<and> v < 2 ^ 32 then Inr (rev (le_bytes 4 v)) else Inl StructError)"

text \<open>\<open>struct.unpack('<Q', b)[0]\<close> and \<open>struct.unpack('<I', b)[0]\<close>: \<open>struct.error\<close>
  when the buffer has not exactly the field's size.\<close>

definition unpack_Q :: "bytes \<Rightarrow> py_error + int" where
  "unpack_Q b = (if length b = 8 then Inr (le_int b) else Inl StructError)"

definition unpack_I :: "bytes \<Rightarrow> py_error + int" where
  "unpack_I b = (if length b = 4 then Inr (le_int b) else Inl StructError)"

text \<open>\<open>f.read(n)\<close> on a regular file, where the argument is the content from the
  current position on: the data read and the content left. A negative size reads to
  the end.\<close>

definition f_read :: "int \<Rightarrow> bytes \<Rightarrow> bytes \<times> bytes" where
  "f_read n f = (if n < 0 then (f, []) else (take (nat n) f, drop (nat n) f))"

definition read_Q :: "bytes \<Rightarrow> py_error + (int \<times> bytes)" where
  "read_Q f = (let (b, r) = f_read 8 f in bind_r (unpack_Q b) (\<lambda>v. Inr (v, r)))"

definition read_I :: "bytes \<Rightarrow> py_error + (int \<times> bytes)" where
  "read_I f = (let (b, r) = f_read 4 f in bind_r (unpack_I b) (\<lambda>v. Inr (v, r)))"

section \<open>DSF format reader\<close>

record dsf_header =
  filepath :: string
  total_file_size :: int
  metadata_offset :: int
  fmt_chunk_size :: int
  fmt_version :: int
  format_id :: int
  channel_type :: int
  channel_num :: int
  sample_rate :: int
  bits_per_sample :: int
  sample_count :: int
  block_size :: int
  data_offset :: int
  data_size :: int

text \<open>\<open>read_dsf_header\<close>, on the content of the file at \<open>path\<close>. The reads are
  those of the source, in its order: the tag, two 8-byte fields, the \<open>fmt\<close> tag, the
  format fields, the \<open>data\<close> tag and the data chunk size; \<open>f.tell()\<close> is the number
  of bytes consumed.\<close>

definition read_dsf_header :: "string \<Rightarrow> bytes \<Rightarrow> py_error + dsf_header" where
  "read_dsf_header path f =
    (let (magic, f1) = f_read 4 f in
     if magic \<noteq> ''DSD '' then Inl (ValueError ''DSD '') else
     bind_r (read_Q f1) (\<lambda>(total_file_size', f2).
     bind_r (read_Q f2) (\<lambda>(metadata_offset', f3).
     let (fmt_magic, f4) = f_read 4 f3 in
     if fmt_magic \<noteq> ''fmt '' then Inl (ValueError ''fmt '') else
     bind_r (read_Q f4) (\<lambda>(fmt_chunk_size', f5).
     bind_r (read_I f5) (\<lambda>(fmt_version', f6).
     bind_r (read_I f6) (\<lambda>(format_id', f7).
     bind_r (read_I f7) (\<lambda>(channel_type', f8).
     bind_r (read_I f8) (\<lambda>(channel_num', f9).
     bind_r (read_I f9) (\<lambda>(sample_rate', f10).
     bind_r (read_I f10) (\<lambda>(bits_per_sample', f11).
     bind_r (read_Q f11) (\<lambda>(sample_count', f12).
     bind_r (read_I f12) (\<lambda>(block_size', f13).
     let (data_magic, f14) = f_read 4 f13 in
     if data_magic \<noteq> ''data'' then Inl (ValueError ''data'') else
     bind_r (read_Q f14) (\<lambda>(data_chunk_size, f15).
     let data_offset' = int (length f) - int (length f15);
         data_size' = data_chunk_size - 12
     in Inr \<lparr> filepath = path,
              total_file_size = total_file_size',
              metadata_offset = metadata_offset',
              fmt_chunk_size = fmt_chunk_size',
              fmt_version = fmt_version',
              format_id = format_id',
              channel_type = channel_type',
              channel_num = channel_num',
              sample_rate = sample_rate',
              bits_per_sample = bits_per_sample',
              sample_count = sample_count',
              block_size = block_size',
              data_offset = data_offset',
              data_size = data_size' \<rparr>)))))))))))))"

section \<open>Track extraction\<close>

text \<open>
  Two calls of \<open>write_dsf_track\<close> take a size or an offset that the program computes
  from the header: \<open>src.seek\<close> and \<open>src.read\<close>; and \<open>b'\x00' * remaining\<close> builds a
  \<open>bytes\<close> object of a computed size. What they do for a large argument depends on
  the interpreter (a 64-bit CPython: sizes and offsets are signed 64-bit numbers, and a
  \<open>bytes\<close> object of \<open>n\<close> bytes takes \<open>n + 33\<close> bytes of memory) and on the machine:
  \<open>max_alloc\<close> is the largest \<open>bytes\<close> object the interpreter is granted the memory
  for, \<open>max_seek\<close> the largest offset the file system of the source accepts. The
  file system is taken to store every byte written to the output.
\<close>

record machine =
  max_alloc :: int
  max_seek :: int

definition ssize_max :: int where
  "ssize_max = 2 ^ 63 - 1"

text \<open>\<open>src.seek(off)\<close> on a file opened \<open>rb\<close>: \<open>ValueError\<close> where the offset is
  no signed 64-bit number, \<open>OSError\<close> where the file system refuses it (a negative
  offset, or one beyond what it supports). A seek past the end of the file is allowed,
  and the next read returns nothing.\<close>

definition seek_error :: "machine \<Rightarrow> int \<Rightarrow> py_error option" where
  "seek_error m off =
    (if off < - (2 ^ 63) \<or> ssize_max < off then Some (ValueError ''offset'')
     else if off < 0 \<or> max_seek m < off then Some OSError
     else None)"

text \<open>The \<open>bytes\<close> object of \<open>n\<close> bytes that \<open>src.read(n)\<close> creates for its result,
  before it reads: \<open>OverflowError\<close> where \<open>n\<close>, or \<open>n\<close> with the object's header, is
  no signed 64-bit number, \<open>MemoryError\<close> where the machine does not grant the
  memory.\<close>

definition alloc_error :: "machine \<Rightarrow> int \<Rightarrow> py_error option" where
  "alloc_error m n =
    (if ssize_max < n + 33 then Some OverflowError
     else if max_alloc m < n then Some MemoryError
     else None)"

text \<open>\<open>src.read(n)\<close>, where the last argument is the content from the current
  position on: the data read and the content left. The size \<open>-1\<close> reads to the end, a
  smaller one raises \<open>ValueError\<close>.\<close>

definition src_read :: "machine \<Rightarrow> int \<Rightarrow> bytes \<Rightarrow> py_error + (bytes \<times> bytes)" where
  "src_read m n f =
    (if n < - 1 then Inl (ValueError ''read length'')
     else case alloc_error m (if n = - 1 then int (length f) else n) of
            Some e \<Rightarrow> Inl e
          | None \<Rightarrow> Inr (f_read n f))"

text \<open>\<open>b'\x00' * n\<close>: \<open>OverflowError\<close> where \<open>n\<close> is no signed 64-bit number,
  \<open>MemoryError\<close> where the object does not fit the address space or the machine does
  not grant the memory.\<close>

definition zero_bytes :: "machine \<Rightarrow> int \<Rightarrow> py_error + bytes" where
  "zero_bytes m n =
    (if ssize_max < n then Inl OverflowError
     else if ssize_max < n + 33 \<or> max_alloc m < n then Inl MemoryError
     else Inr (replicate (nat n) (CHR 0x00)))"

text \<open>The copy loop of \<open>write_dsf_track\<close>: \<open>remaining\<close> bytes are still to be
  written, \<open>src\<close> is the source content from its current position on. The result is
  the exception that ends the loop, if any, and what the loop has written to the
  output.\<close>

function copy_blocks :: "machine \<Rightarrow> int \<Rightarrow> int \<Rightarrow> bytes \<Rightarrow> py_error option \<times> bytes" where
  "copy_blocks m remaining buf_size src =
    (if remaining > 0 then
       let to_read = min buf_size remaining
       in case src_read m to_read src of
            Inl e \<Rightarrow> (Some e, [])
          | Inr (data, src') \<Rightarrow>
              if data = [] then
                (case zero_bytes m remaining of
                   Inl e \<Rightarrow> (Some e, [])
                 | Inr pad \<Rightarrow> (None, pad))
              else apsnd (\<lambda>out. data @ out)
                     (copy_blocks m (remaining - int (length data)) buf_size src')
     else (None, []))"
  by pat_completeness auto
termination
  by (relation "measure (\<lambda>(m, remaining, buf_size, src). nat remaining)") auto

declare copy_blocks.simps [simp del]

text \<open>What a call of \<open>write_dsf_track\<close> leaves behind: no output file at all
  (\<open>Skipped\<close>), a complete output file (\<open>Written\<close>), or an exception after the
  output file was created, with the bytes written up to then (\<open>Aborted\<close>).\<close>

datatype wr_result = Skipped | Written bytes | Aborted py_error bytes

text \<open>\<open>dst.write(struct.pack(fmt, v))\<close> followed by the rest of the function.\<close>

definition w_pack ::
  "(int \<Rightarrow> py_error + bytes) \<Rightarrow> int \<Rightarrow> bytes \<Rightarrow> (bytes \<Rightarrow> wr_result) \<Rightarrow> wr_result" where
  "w_pack p v dst k = (case p v of Inl e \<Rightarrow> Aborted e dst | Inr b \<Rightarrow> k (dst @ b))"

text \<open>The copy of the bytes of a format chunk longer than 52 bytes, followed by the
  rest of the function.\<close>

definition w_fmt_extra ::
  "machine \<Rightarrow> bytes \<Rightarrow> dsf_header \<Rightarrow> bytes \<Rightarrow> (bytes \<Rightarrow> wr_result) \<Rightarrow> wr_result" where
  "w_fmt_extra m src header dst k =
    (if fmt_chunk_size header > 52 then
       case seek_error m (28 + 52) of
         Some e \<Rightarrow> Aborted e dst
       | None \<Rightarrow>
          (let extra = fmt_chunk_size header - 52
           in case src_read m extra (drop (28 + 52) src) of
                Inl e \<Rightarrow> Aborted e dst
              | Inr (data, src') \<Rightarrow> k (dst @ data))
     else k dst)"

text \<open>\<open>write_dsf_track\<close> on the machine \<open>m\<close>, on the content \<open>src\<close> of the source
  file as the function's reads see it. The final \<open>new_sample_count / sample_rate\<close> of
  the progress message raises \<open>ZeroDivisionError\<close> for a zero sample rate, after the
  file was written.\<close>

definition write_dsf_track ::
  "machine \<Rightarrow> bytes \<Rightarrow> dsf_header \<Rightarrow> int \<Rightarrow> int \<Rightarrow> wr_result" where
  "write_dsf_track m src header start_block end_block =
    (let frame_size = block_size header * channel_num header;
         num_blocks = end_block - start_block
     in if num_blocks \<le> 0 then Skipped else
     let new_sample_count = num_blocks * block_size header * 8;
         new_data_payload = num_blocks * frame_size;
         new_data_chunk_size = 12 + new_data_payload;
         new_total_size = 28 + fmt_chunk_size header + new_data_chunk_size
     in
     w_pack pack_Q 28 ''DSD '' (\<lambda>dst.
     w_pack pack_Q new_total_size dst (\<lambda>dst.
     w_pack pack_Q 0 dst (\<lambda>dst.
     w_pack pack_Q (fmt_chunk_size header) (dst @ ''fmt '') (\<lambda>dst.
     w_pack pack_I (fmt_version header) dst (\<lambda>dst.
     w_pack pack_I (format_id header) dst (\<lambda>dst.
     w_pack pack_I (channel_type header) dst (\<lambda>dst.
     w_pack pack_I (channel_num header) dst (\<lambda>dst.
     w_pack pack_I (sample_rate header) dst (\<lambda>dst.
     w_pack pack_I (bits_per_sample header) dst (\<lambda>dst.
     w_pack pack_Q new_sample_count dst (\<lambda>dst.
     w_pack pack_I (block_size header) dst (\<lambda>dst.
     w_pack pack_I 0 dst (\<lambda>dst.
     w_fmt_extra m src header dst (\<lambda>dst.
     w_pack pack_Q new_data_chunk_size (dst @ ''data'') (\<lambda>dst.
     let src_data_start = data_offset header + start_block * frame_size
     in case seek_error m src_data_start of
          Some e \<Rightarrow> Aborted e dst
        | None \<Rightarrow>
           (case copy_blocks m new_data_payload (frame_size * 64)
                   (drop (nat src_data_start) src) of
              (Some e, data) \<Rightarrow> Aborted e (dst @ data)
            | (None, data) \<Rightarrow>
                if sample_rate header = 0 then Aborted ZeroDivisionError (dst @ data)
                else Written (dst @ data))))))))))))))))))"

section \<open>ID3v2.3 tag builder\<close>

text \<open>The loop of \<open>_id3_syncsafe\<close> fills \<open>out[3]\<close>, \<open>out[2]\<close>, \<open>out[1]\<close>, \<open>out[0]\<close>
  with \<open>n & 0x7F\<close>, shifting \<open>n\<close> right by 7 after each; the first argument is the
  number of bytes still to fill.\<close>

fun id3_syncsafe_loop :: "nat \<Rightarrow> int \<Rightarrow> bytes" where
  "id3_syncsafe_loop 0 n = []"
| "id3_syncsafe_loop (Suc i) n = id3_syncsafe_loop i (n div 128) @ [char_of (n mod 128)]"

definition id3_syncsafe :: "int \<Rightarrow> bytes" where
  "id3_syncsafe n = id3_syncsafe_loop 4 n"

definition id3_text_frame :: "string \<Rightarrow> string \<Rightarrow> py_error + bytes" where
  "id3_text_frame frame_id text' =
    (if text' = [] then Inr []
     else let payload = CHR 0x03 # text'
          in bind_r (pack_be_I (int (length payload))) (\<lambda>size_field.
             Inr ((frame_id @ size_field @ [CHR 0x00, CHR 0x00]) @ payload)))"

text \<open>The text of the \<open>TRCK\<close> frame.\<close>

definition trck_text :: "string \<Rightarrow> string \<Rightarrow> string" where
  "trck_text track_num' total_tracks =
    (if total_tracks \<noteq> [] then track_num' @ ''/'' @ total_tracks else track_num')"

definition build_id3v2_tag ::
  "string \<Rightarrow> string \<Rightarrow> string \<Rightarrow> string \<Rightarrow> string \<Rightarrow> string \<Rightarrow> string
     \<Rightarrow> py_error + bytes" where
  "build_id3v2_tag title' artist album track_num' total_tracks genre date =
    bind_r (id3_text_frame ''TIT2'' title') (\<lambda>f1.
    bind_r (id3_text_frame ''TPE1'' artist) (\<lambda>f2.
    bind_r (id3_text_frame ''TALB'' album) (\<lambda>f3.
    bind_r (if track_num' \<noteq> []
            then id3_text_frame ''TRCK'' (trck_text track_num' total_tracks)
            else Inr []) (\<lambda>f4.
    bind_r (id3_text_frame ''TCON'' genre) (\<lambda>f5.
    bind_r (id3_text_frame ''TYER'' date) (\<lambda>f6.
    let frames = f1 @ f2 @ f3 @ f4 @ f5 @ f6
    in if frames = [] then Inr []
       else Inr ((''ID3'' @ [CHR 0x03, CHR 0x00] @ [CHR 0x00]
                    @ id3_syncsafe (int (length frames))) @ frames)))))))"

text \<open>\<open>build_id3v2_tag(**tags)\<close> for a dict \<open>tags\<close> whose keys are among the seven
  parameter names: a missing key takes the default, the empty string.\<close>

definition kw :: "(string \<rightharpoonup> string) \<Rightarrow> string \<Rightarrow> string" where
  "kw tags k = (case tags k of None \<Rightarrow> [] | Some v \<Rightarrow> v)"

definition build_id3v2_tag_kw :: "(string \<rightharpoonup> string) \<Rightarrow> py_error + bytes" where
  "build_id3v2_tag_kw tags =
    build_id3v2_tag (kw tags ''title'') (kw tags ''artist'') (kw tags ''album'')
      (kw tags ''track_num'') (kw tags ''total_tracks'') (kw tags ''genre'') (kw tags ''date'')"

text \<open>\<open>f.seek(pos); f.write(b)\<close> on a file opened \<open>r+b\<close>: the bytes at
  \<open>pos\<close> are overwritten, and the file grows where the write passes its end.\<close>

definition f_write_at :: "nat \<Rightarrow> bytes \<Rightarrow> bytes \<Rightarrow> bytes" where
  "f_write_at pos b f =
    (take pos f @ replicate (pos - length f) (CHR 0x00)) @ b @ drop (pos + length b) f"

text \<open>\<open>write_id3_to_dsf\<close>, on the content \<open>f\<close> of the file at \<open>dsf_path\<close>; the
  result is the file's new content. Every exception of the function is raised before
  its first write.\<close>

definition write_id3_to_dsf :: "bytes \<Rightarrow> (string \<rightharpoonup> string) \<Rightarrow> py_error + bytes" where
  "write_id3_to_dsf f tags =
    bind_r (build_id3v2_tag_kw tags) (\<lambda>tag_blob.
    if tag_blob = [] then Inr f else
    let (magic, f1) = f_read 4 f in
    if magic \<noteq> ''DSD '' then Inl AssertionError else
    bind_r (read_Q f1) (\<lambda>(dsd_chunk_size, f2).
    bind_r (read_Q f2) (\<lambda>(old_total, f3).
    let metadata_offset' = old_total;
        new_total = old_total + int (length tag_blob)
    in bind_r (pack_Q new_total) (\<lambda>b12.
       bind_r (pack_Q metadata_offset') (\<lambda>b20.
       Inr (f_write_at 20 b20 (f_write_at 12 b12 f) @ tag_blob))))))"

section \<open>Block math\<close>

text \<open>
  \<open>time_to_samples\<close> computes in Python floats, which are IEEE 754 binary64 numbers.
  A float is a rational, an infinity (\<open>True\<close> for the negative one) or a NaN; the
  sign of a zero is not kept, since \<open>int()\<close> does not see it. An operation rounds
  its exact result to the nearest number with a 53-bit significand, ties to the even
  significand; \<open>ulp_exp\<close> is the exponent of the last significand bit for a given
  magnitude (\<open>-1074\<close> in the subnormal range).
\<close>

datatype pyfloat = Finite rat | Infinity bool | NaN

definition pow2 :: "int \<Rightarrow> rat" where
  "pow2 e = (if 0 \<le> e then 2 ^ nat e else 1 / 2 ^ nat (- e))"

definition round_half_even :: "rat \<Rightarrow> int" where
  "round_half_even x =
    (let f = \<lfloor>x\<rfloor>; d = x - of_int f
     in if d < 1 / 2 then f else if 1 / 2 < d then f + 1
        else if even f then f else f + 1)"

definition ulp_exp :: "rat \<Rightarrow> int" where
  "ulp_exp a = max (bitlen \<lfloor>a * 2 ^ 1074\<rfloor> - 1127) (- 1074)"

definition round_binary64 :: "rat \<Rightarrow> rat" where
  "round_binary64 x =
    (let a = \<bar>x\<bar>; e = ulp_exp a
     in sgn x * of_int (round_half_even (a / pow2 e)) * pow2 e)"

text \<open>The float of an exact result: an infinity from \<open>2 ^ 1024\<close> on.\<close>

definition to_float :: "rat \<Rightarrow> pyfloat" where
  "to_float x =
    (let r = round_binary64 x
     in if \<bar>r\<bar> < 2 ^ 1024 then Finite r else Infinity (r < 0))"

text \<open>The conversion of an \<open>int\<close> operand of a float operation: \<open>OverflowError\<close>
  where the float would be an infinity.\<close>

definition float_of_int :: "int \<Rightarrow> py_error + pyfloat" where
  "float_of_int n =
    (case to_float (of_int n) of Finite r \<Rightarrow> Inr (Finite r) | _ \<Rightarrow> Inl OverflowError)"

fun fadd :: "pyfloat \<Rightarrow> pyfloat \<Rightarrow> pyfloat" where
  "fadd (Finite x) (Finite y) = to_float (x + y)"
| "fadd NaN _ = NaN"
| "fadd _ NaN = NaN"
| "fadd (Infinity s) (Infinity s') = (if s = s' then Infinity s else NaN)"
| "fadd (Infinity s) (Finite y) = Infinity s"
| "fadd (Finite x) (Infinity s) = Infinity s"

fun fmul :: "pyfloat \<Rightarrow> pyfloat \<Rightarrow> pyfloat" where
  "fmul (Finite x) (Finite y) = to_float (x * y)"
| "fmul NaN _ = NaN"
| "fmul _ NaN = NaN"
| "fmul (Infinity s) (Infinity s') = Infinity (s \<noteq> s')"
| "fmul (Infinity s) (Finite y) = (if y = 0 then NaN else Infinity (s \<noteq> (y < 0)))"
| "fmul (Finite x) (Infinity s) = (if x = 0 then NaN else Infinity (s \<noteq> (x < 0)))"

text \<open>Division by the float \<open>75.0\<close>.\<close>

fun fdiv75 :: "pyfloat \<Rightarrow> pyfloat" where
  "fdiv75 (Finite x) = to_float (x / 75)"
| "fdiv75 (Infinity s) = Infinity s"
| "fdiv75 NaN = NaN"

text \<open>\<open>int(x)\<close> of a float truncates towards zero.\<close>

fun int_of_float :: "pyfloat \<Rightarrow> py_error + int" where
  "int_of_float (Finite x) = Inr (if 0 \<le> x then \<lfloor>x\<rfloor> else \<lceil>x\<rceil>)"
| "int_of_float (Infinity s) = Inl OverflowError"
| "int_of_float NaN = Inl (ValueError ''NaN'')"

definition time_to_samples :: "int \<Rightarrow> int \<Rightarrow> int \<Rightarrow> int \<Rightarrow> py_error + int" where
  "time_to_samples minutes seconds frames sample_rate' =
    bind_r (float_of_int frames) (\<lambda>ff.
    bind_r (float_of_int (minutes * 60 + seconds)) (\<lambda>whole.
    let total_seconds = fadd whole (fdiv75 ff)
    in bind_r (float_of_int sample_rate') (\<lambda>sr.
       int_of_float (fmul total_seconds sr))))"

definition samples_to_block_index :: "int \<Rightarrow> int \<Rightarrow> py_error + int" where
  "samples_to_block_index samples block_size' =
    (let samples_per_block = block_size' * 8
     in if samples_per_block = 0 then Inl ZeroDivisionError
        else Inr (samples div samples_per_block))"

section \<open>CUE parser\<close>

text \<open>
  \<open>parse_cue\<close> tests each stripped, non-empty line against a chain of regular
  expressions; the patterns begin with different keywords, so at most one of them
  matches a line. A line is represented by the outcome of that chain: the pattern that
  matched, with the groups the code takes from the match (for \<open>REM GENRE\<close> and
  \<open>REM DATE\<close> the group after \<open>.strip().strip('"')\<close>, for \<open>INDEX 01\<close> the three
  groups after \<open>int()\<close>), or \<open>Unmatched\<close>.
\<close>

datatype cue_line =
    FILE string
  | REM_GENRE string
  | REM_DATE string
  | TRACK string
  | TITLE string
  | PERFORMER string
  | INDEX01 int int int
  | Unmatched

text \<open>A track is a dict with the keys \<open>file\<close> (the field \<open>track_file\<close>; \<open>None\<close> before the first \<open>FILE\<close>
  line), \<open>track_num\<close>, \<open>title\<close>, \<open>performer\<close> and, once \<open>INDEX 01\<close> was seen,
  \<open>index_m\<close>, \<open>index_s\<close>, \<open>index_f\<close>.\<close>

record track =
  track_file :: "string option"
  track_num :: string
  title :: string
  performer :: string
  index_m :: "int option"
  index_s :: "int option"
  index_f :: "int option"

text \<open>The state of the loop of \<open>parse_cue\<close>. \<open>current_track\<close> is a reference to a
  dict that is also an element of \<open>tracks\<close>: it is kept as the position of that
  element, and an assignment through it updates the list.\<close>

record parse_state =
  album_meta :: "string \<rightharpoonup> string"
  tracks :: "track list"
  current_file :: "string option"
  current_track :: "nat option"

definition get_default :: "(string \<rightharpoonup> string) \<Rightarrow> string \<Rightarrow> string \<Rightarrow> string" where
  "get_default d k v = (case d k of None \<Rightarrow> v | Some x \<Rightarrow> x)"

fun parse_line :: "cue_line \<Rightarrow> parse_state \<Rightarrow> parse_state" where
  "parse_line (FILE name) st = st\<lparr>current_file := Some name\<rparr>"
| "parse_line (REM_GENRE v) st = st\<lparr>album_meta := (album_meta st)(''GENRE'' \<mapsto> v)\<rparr>"
| "parse_line (REM_DATE v) st = st\<lparr>album_meta := (album_meta st)(''DATE'' \<mapsto> v)\<rparr>"
| "parse_line (TRACK n) st =
     st\<lparr>tracks := tracks st @
            [\<lparr>track_file = current_file st, track_num = n, title = ''Track '' @ n,
              performer = get_default (album_meta st) ''PERFORMER'' [],
              index_m = None, index_s = None, index_f = None\<rparr>],
        current_track := Some (length (tracks st))\<rparr>"
| "parse_line (TITLE v) st =
     (case current_track st of
        Some i \<Rightarrow> st\<lparr>tracks := (tracks st)[i := (tracks st ! i)\<lparr>title := v\<rparr>]\<rparr>
      | None \<Rightarrow> st\<lparr>album_meta := (album_meta st)(''TITLE'' \<mapsto> v)\<rparr>)"
| "parse_line (PERFORMER v) st =
     (case current_track st of
        Some i \<Rightarrow> st\<lparr>tracks := (tracks st)[i := (tracks st ! i)\<lparr>performer := v\<rparr>]\<rparr>
      | None \<Rightarrow> st\<lparr>album_meta := (album_meta st)(''PERFORMER'' \<mapsto> v)\<rparr>)"
| "parse_line (INDEX01 m s f) st =
     (case current_track st of
        Some i \<Rightarrow>
          st\<lparr>tracks := (tracks st)[i := (tracks st ! i)
                  \<lparr>index_m := Some m, index_s := Some s, index_f := Some f\<rparr>],
             current_track := None\<rparr>
      | None \<Rightarrow> st)"
| "parse_line Unmatched st = st"

fun parse_lines :: "cue_line list \<Rightarrow> parse_state \<Rightarrow> parse_state" where
  "parse_lines [] st = st"
| "parse_lines (l # ls) st = parse_lines ls (parse_line l st)"

definition parse_init :: parse_state where
  "parse_init = \<lparr>album_meta = Map.empty, tracks = [], current_file = None,
                  current_track = None\<rparr>"

definition parse_cue :: "cue_line list \<Rightarrow> (string \<rightharpoonup> string) \<times> track list" where
  "parse_cue lines = (let st = parse_lines lines parse_init in (album_meta st, tracks st))"

section \<open>Main splitter logic\<close>

text \<open>The file system is a map from paths to file contents; different paths are
  different files. The headers cache and the printed messages are part of the state
  of a run.\<close>

datatype message =
    PrintAlbum string
  | PrintArtist string
  | PrintTracks nat
  | PrintBlank
  | ErrorNoTracks
  | ErrorNoFileReference string
  | ErrorSourceNotFound string
  | PrintReading string
  | PrintTrack string string
  | WarningZeroLength string
  | PrintOK string int int
  | PrintDone

record run_state =
  files :: "string \<rightharpoonup> bytes"
  dsf_headers :: "string \<rightharpoonup> dsf_header"
  printed :: "message list"

definition say :: "message \<Rightarrow> run_state \<Rightarrow> run_state" where
  "say m st = st\<lparr>printed := printed st @ [m]\<rparr>"

text \<open>\<open>os.path.join\<close> of two paths (POSIX).\<close>

definition path_join :: "string \<Rightarrow> string \<Rightarrow> string" where
  "path_join a b =
    (if b \<noteq> [] \<and> hd b = CHR ''/'' then b
     else if a = [] \<or> last a = CHR ''/'' then a @ b
     else a @ ''/'' @ b)"

text \<open>\<open>re.sub(r'[<>:"/\\|?*]', '_', title)\<close>; \<open>0x22\<close> is the double quote and
  \<open>0x5C\<close> the backslash.\<close>

definition safe_title :: "string \<Rightarrow> string" where
  "safe_title t =
    map (\<lambda>c. if c \<in> {CHR ''<'', CHR ''>'', CHR '':'', CHR 0x22, CHR ''/'', CHR 0x5C,
                       CHR ''|'', CHR ''?'', CHR ''*''}
              then CHR ''_'' else c) t"

text \<open>\<open>str(n)\<close> of a length.\<close>

fun str_nat :: "nat \<Rightarrow> string" where
  "str_nat n =
    (if n < 10 then [char_of (48 + n)]
     else str_nat (n div 10) @ [char_of (48 + n mod 10)])"

declare str_nat.simps [simp del]

text \<open>\<open>write_dsf_track\<close> with its files: the degenerate range returns before any
  file is opened; otherwise the source is opened, then the output is created or
  truncated. Where both are the same path, the reads see an empty file.\<close>

definition write_dsf_track_at ::
  "machine \<Rightarrow> run_state \<Rightarrow> string \<Rightarrow> dsf_header \<Rightarrow> int \<Rightarrow> int \<Rightarrow> string
     \<Rightarrow> py_error option \<times> run_state" where
  "write_dsf_track_at m st src_path header start_block end_block out_path =
    (if end_block - start_block \<le> 0 then (None, say (WarningZeroLength out_path) st)
     else case files st src_path of
       None \<Rightarrow> (Some FileNotFoundError, st)
     | Some content \<Rightarrow>
        (case write_dsf_track m (if src_path = out_path then [] else content)
                header start_block end_block of
           Skipped \<Rightarrow> (None, say (WarningZeroLength out_path) st)
         | Written b \<Rightarrow>
             (None, say (PrintOK out_path start_block (end_block - 1))
                      (st\<lparr>files := (files st)(out_path \<mapsto> b)\<rparr>))
         | Aborted e b \<Rightarrow> (Some e, st\<lparr>files := (files st)(out_path \<mapsto> b)\<rparr>)))"

text \<open>\<open>write_id3_to_dsf\<close> with its file: the file is opened only for a non-empty
  tag, and has to exist then.\<close>

definition write_id3_to_dsf_at ::
  "run_state \<Rightarrow> string \<Rightarrow> (string \<rightharpoonup> string) \<Rightarrow> py_error option \<times> run_state" where
  "write_id3_to_dsf_at st dsf_path tags =
    (case build_id3v2_tag_kw tags of
       Inl e \<Rightarrow> (Some e, st)
     | Inr tag_blob \<Rightarrow>
        (if tag_blob = [] then (None, st)
         else (case files st dsf_path of
                 None \<Rightarrow> (Some FileNotFoundError, st)
               | Some f \<Rightarrow>
                  (case write_id3_to_dsf f tags of
                     Inl e \<Rightarrow> (Some e, st)
                   | Inr f' \<Rightarrow> (None, st\<lparr>files := (files st)(dsf_path \<mapsto> f')\<rparr>)))))"

text \<open>The keys \<open>index_m\<close>, \<open>index_s\<close>, \<open>index_f\<close> of a track: \<open>KeyError\<close> where
  \<open>INDEX 01\<close> never set them.\<close>

definition index_time :: "track \<Rightarrow> py_error + (int \<times> int \<times> int)" where
  "index_time t =
    (case (index_m t, index_s t, index_f t) of
       (Some m, Some s, Some f) \<Rightarrow> Inr (m, s, f)
     | _ \<Rightarrow> Inl KeyError)"

text \<open>The block range of track \<open>i\<close> in its source, as the body of the loop of
  \<open>split_dsf_cue\<close> computes it from the cached header: the total block count first,
  then the start block, then the end block.\<close>

definition block_range :: "dsf_header \<Rightarrow> track list \<Rightarrow> nat \<Rightarrow> py_error + (int \<times> int)" where
  "block_range hdr ts i =
    (let frame_size = block_size hdr * channel_num hdr
     in if frame_size = 0 then Inl ZeroDivisionError else
     let total_blocks = data_size hdr div frame_size
     in bind_r (index_time (ts ! i)) (\<lambda>(m, s, f).
        bind_r (time_to_samples m s f (sample_rate hdr)) (\<lambda>start_samples.
        bind_r (samples_to_block_index start_samples (block_size hdr)) (\<lambda>start_block.
        if i + 1 < length ts \<and> track_file (ts ! (i + 1)) = track_file (ts ! i) then
          bind_r (index_time (ts ! (i + 1))) (\<lambda>(m', s', f').
          bind_r (time_to_samples m' s' f' (sample_rate hdr)) (\<lambda>end_samples.
          bind_r (samples_to_block_index end_samples (block_size hdr)) (\<lambda>end_block.
          Inr (start_block, end_block))))
        else Inr (start_block, total_blocks)))))"

text \<open>The body of the loop of \<open>split_dsf_cue\<close> for the track at position \<open>i\<close>. The
  first component of the result is the exception that ends the run, if any
  (\<open>SystemExit 1\<close> for \<open>sys.exit(1)\<close>).\<close>

definition cached_header ::
  "string \<Rightarrow> string \<Rightarrow> run_state \<Rightarrow> (py_error \<times> run_state) + (dsf_header \<times> run_state)" where
  "cached_header src_filename src_path st =
    (case dsf_headers st src_filename of
       Some h \<Rightarrow> Inr (h, st)
     | None \<Rightarrow>
        (case files st src_path of
           None \<Rightarrow> Inl (SystemExit 1, say (ErrorSourceNotFound src_path) st)
         | Some content \<Rightarrow>
            (case read_dsf_header src_path content of
               Inl e \<Rightarrow> Inl (e, say (PrintReading src_filename) st)
             | Inr h \<Rightarrow>
                Inr (h, (say (PrintReading src_filename) st)
                          \<lparr>dsf_headers := (dsf_headers st)(src_filename \<mapsto> h)\<rparr>))))"

definition track_tags :: "(string \<rightharpoonup> string) \<Rightarrow> track list \<Rightarrow> track \<Rightarrow> (string \<rightharpoonup> string)" where
  "track_tags meta ts t =
    [''title'' \<mapsto> title t,
     ''artist'' \<mapsto> performer t,
     ''album'' \<mapsto> get_default meta ''TITLE'' [],
     ''track_num'' \<mapsto> track_num t,
     ''total_tracks'' \<mapsto> str_nat (length ts),
     ''genre'' \<mapsto> get_default meta ''GENRE'' [],
     ''date'' \<mapsto> get_default meta ''DATE'' []]"

definition process_track ::
  "machine \<Rightarrow> string \<Rightarrow> (string \<rightharpoonup> string) \<Rightarrow> track list \<Rightarrow> nat \<Rightarrow> run_state
     \<Rightarrow> py_error option \<times> run_state" where
  "process_track m cue_dir meta ts i st =
    (let t = ts ! i in
     case track_file t of
       None \<Rightarrow> (None, say (ErrorNoFileReference (track_num t)) st)
     | Some src_filename \<Rightarrow>
       (if src_filename = [] then (None, say (ErrorNoFileReference (track_num t)) st) else
        let src_path = path_join cue_dir src_filename in
        (case cached_header src_filename src_path st of
           Inl (e, st') \<Rightarrow> (Some e, st')
         | Inr (hdr, st1) \<Rightarrow>
            (case block_range hdr ts i of
               Inl e \<Rightarrow> (Some e, st1)
             | Inr (start_block, end_block) \<Rightarrow>
                (let out_name = track_num t @ '' - '' @ safe_title (title t) @ ''.dsf'';
                     out_path = path_join cue_dir out_name;
                     st2 = say (PrintTrack (track_num t) (title t)) st1
                 in (case write_dsf_track_at m st2 src_path hdr start_block end_block out_path of
                       (Some e, st3) \<Rightarrow> (Some e, st3)
                     | (None, st3) \<Rightarrow>
                         write_id3_to_dsf_at st3 out_path (track_tags meta ts t)))))))"

fun process_tracks ::
  "machine \<Rightarrow> string \<Rightarrow> (string \<rightharpoonup> string) \<Rightarrow> track list \<Rightarrow> nat list \<Rightarrow> run_state
     \<Rightarrow> py_error option \<times> run_state" where
  "process_tracks m cue_dir meta ts [] st = (None, st)"
| "process_tracks m cue_dir meta ts (i # is) st =
    (case process_track m cue_dir meta ts i st of
       (Some e, st') \<Rightarrow> (Some e, st')
     | (None, st') \<Rightarrow> process_tracks m cue_dir meta ts is st')"

text \<open>\<open>split_dsf_cue\<close>, for the cue sheet with the given lines in the directory
  \<open>cue_dir\<close>, on the machine \<open>m\<close> with the file system \<open>fs\<close>.\<close>

definition split_dsf_cue ::
  "machine \<Rightarrow> (string \<rightharpoonup> bytes) \<Rightarrow> string \<Rightarrow> cue_line list
     \<Rightarrow> py_error option \<times> run_state" where
  "split_dsf_cue m fs cue_dir lines =
    (let (meta, ts) = parse_cue lines;
         st0 = \<lparr>files = fs, dsf_headers = Map.empty, printed = []\<rparr>
     in if ts = [] then (Some (SystemExit 1), say ErrorNoTracks st0) else
     let st1 = say PrintBlank (say (PrintTracks (length ts))
                 (say (PrintArtist (get_default meta ''PERFORMER'' ''?''))
                   (say (PrintAlbum (get_default meta ''TITLE'' ''?'')) st0)))
     in case process_tracks m cue_dir meta ts [0..<length ts] st1 of
          (Some e, st') \<Rightarrow> (Some e, st')
        | (None, st') \<Rightarrow> (None, say PrintDone (say PrintBlank st')))"

section \<open>Auxiliary definitions\<close>

text \<open>The open track, if any, is an element of the track list.\<close>

definition open_track_ok :: "parse_state \<Rightarrow> bool" where
  "open_track_ok st = (case current_track st of None \<Rightarrow> True | Some i \<Rightarrow> i < length (tracks st))"

text \<open>The little-endian field of \<open>n\<close> bytes at offset \<open>off\<close> of a file.\<close>

definition field_at :: "nat \<Rightarrow> nat \<Rightarrow> bytes \<Rightarrow> int" where
  "field_at off n f = le_int (take n (drop off f))"

text \<open>The values \<open>write_dsf_track\<close> computes for a block range, and the condition
  under which each of its \<open>struct.pack\<close> calls finds its value in the field's range.\<close>

definition new_data_payload :: "dsf_header \<Rightarrow> int \<Rightarrow> int \<Rightarrow> int" where
  "new_data_payload h s e = (e - s) * (block_size h * channel_num h)"

definition new_total_size :: "dsf_header \<Rightarrow> int \<Rightarrow> int \<Rightarrow> int" where
  "new_total_size h s e = 28 + fmt_chunk_size h + (12 + new_data_payload h s e)"

definition new_sample_count :: "dsf_header \<Rightarrow> int \<Rightarrow> int \<Rightarrow> int" where
  "new_sample_count h s e = (e - s) * block_size h * 8"

definition u32 :: "int \<Rightarrow> bool" where
  "u32 v = (0 \<le> v \<and> v < 2 ^ 32)"

definition u64 :: "int \<Rightarrow> bool" where
  "u64 v = (0 \<le> v \<and> v < 2 ^ 64)"

definition header_fits :: "dsf_header \<Rightarrow> int \<Rightarrow> int \<Rightarrow> bool" where
  "header_fits h s e =
    (u64 (new_total_size h s e) \<and> u64 (fmt_chunk_size h) \<and> u32 (fmt_version h)
     \<and> u32 (format_id h) \<and> u32 (channel_type h) \<and> u32 (channel_num h)
     \<and> u32 (sample_rate h) \<and> u32 (bits_per_sample h) \<and> u64 (new_sample_count h s e)
     \<and> u32 (block_size h) \<and> u64 (12 + new_data_payload h s e))"

text \<open>The container chunk and the standard format chunk of the output, the bytes
  copied from a longer format chunk of the source, and the header of the data chunk.\<close>

definition dsf_prefix :: "dsf_header \<Rightarrow> int \<Rightarrow> int \<Rightarrow> bytes" where
  "dsf_prefix h s e =
    ''DSD '' @ le_bytes 8 28 @ le_bytes 8 (new_total_size h s e) @ le_bytes 8 0
    @ ''fmt '' @ le_bytes 8 (fmt_chunk_size h) @ le_bytes 4 (fmt_version h)
    @ le_bytes 4 (format_id h) @ le_bytes 4 (channel_type h) @ le_bytes 4 (channel_num h)
    @ le_bytes 4 (sample_rate h) @ le_bytes 4 (bits_per_sample h)
    @ le_bytes 8 (new_sample_count h s e) @ le_bytes 4 (block_size h) @ le_bytes 4 0"

definition fmt_extra :: "bytes \<Rightarrow> dsf_header \<Rightarrow> bytes" where
  "fmt_extra src h =
    (if fmt_chunk_size h > 52 then take (nat (fmt_chunk_size h - 52)) (drop 80 src) else [])"

definition data_head :: "dsf_header \<Rightarrow> int \<Rightarrow> int \<Rightarrow> bytes" where
  "data_head h s e = ''data'' @ le_bytes 8 (12 + new_data_payload h s e)"

definition src_data_start :: "dsf_header \<Rightarrow> int \<Rightarrow> int" where
  "src_data_start h s = data_offset h + s * (block_size h * channel_num h)"

definition copy_result ::
  "machine \<Rightarrow> bytes \<Rightarrow> dsf_header \<Rightarrow> int \<Rightarrow> int \<Rightarrow> py_error option \<times> bytes" where
  "copy_result m src h s e =
    copy_blocks m (new_data_payload h s e) (block_size h * channel_num h * 64)
      (drop (nat (src_data_start h s)) src)"

text \<open>A small source file in the layout \<open>read_dsf_header\<close> reads (a 20-byte
  container chunk, a 48-byte format chunk, the data chunk header at offset 68): two
  channels, a block size of 4 bytes and two frames of data; and a file in the layout
  of the DSF format, which is also the layout \<open>write_dsf_track\<close> writes (a 28-byte
  container chunk, a 52-byte format chunk, the data chunk header at offset 80): stereo
  DSD64 with one frame of 4096-byte blocks.\<close>

definition demo_src :: bytes where
  "demo_src =
    ''DSD '' @ le_bytes 8 28 @ le_bytes 8 96
    @ ''fmt '' @ le_bytes 8 52 @ le_bytes 4 1 @ le_bytes 4 0 @ le_bytes 4 2 @ le_bytes 4 2
    @ le_bytes 4 2822400 @ le_bytes 4 1 @ le_bytes 8 64 @ le_bytes 4 4
    @ ''data'' @ le_bytes 8 28 @ ''0123456789abcdef''"

definition demo_hdr :: dsf_header where
  "demo_hdr =
    \<lparr> filepath = ''/music/album.dsf'', total_file_size = 28, metadata_offset = 96,
      fmt_chunk_size = 52, fmt_version = 1, format_id = 0, channel_type = 2,
      channel_num = 2, sample_rate = 2822400, bits_per_sample = 1, sample_count = 64,
      block_size = 4, data_offset = 80, data_size = 16 \<rparr>"

definition dsf_file :: bytes where
  "dsf_file =
    ''DSD '' @ le_bytes 8 28 @ le_bytes 8 8284 @ le_bytes 8 0
    @ ''fmt '' @ le_bytes 8 52 @ le_bytes 4 1 @ le_bytes 4 0 @ le_bytes 4 2 @ le_bytes 4 2
    @ le_bytes 4 2822400 @ le_bytes 4 1 @ le_bytes 8 32768 @ le_bytes 4 4096 @ le_bytes 4 0
    @ ''data'' @ le_bytes 8 8204 @ replicate 8192 (CHR 0x69)"

text \<open>The source \<open>demo_src\<close> with the block size field (offset 64) set to zero.\<close>

definition demo_src_zero_block :: bytes where
  "demo_src_zero_block = take 64 demo_src @ le_bytes 4 0 @ drop 68 demo_src"

text \<open>The bytes the source supplies for a block range: what it holds from the start
  offset of the range on, up to the payload length.\<close>

definition supplied :: "bytes \<Rightarrow> dsf_header \<Rightarrow> int \<Rightarrow> int \<Rightarrow> bytes" where
  "supplied src h s e =
    take (nat (new_data_payload h s e)) (drop (nat (src_data_start h s)) src)"

text \<open>The source \<open>demo_src\<close> with the sample rate field (offset 48) set to zero.\<close>

definition demo_src_zero_rate :: bytes where
  "demo_src_zero_rate = take 48 demo_src @ le_bytes 4 0 @ drop 52 demo_src"

text \<open>The largest size the interpreter allocates on a machine, and the largest offset
  a seek accepts there.\<close>

definition alloc_limit :: "machine \<Rightarrow> int" where
  "alloc_limit m = min (max_alloc m) (ssize_max - 33)"

definition seek_limit :: "machine \<Rightarrow> int" where
  "seek_limit m = min (max_seek m) ssize_max"

text \<open>The rest of \<open>write_dsf_track\<close> once the standard format chunk is written.\<close>

definition write_rest ::
  "machine \<Rightarrow> bytes \<Rightarrow> dsf_header \<Rightarrow> int \<Rightarrow> int \<Rightarrow> bytes \<Rightarrow> wr_result" where
  "write_rest m src h s e dst =
    (case seek_error m (src_data_start h s) of
       Some x \<Rightarrow> Aborted x (dst @ data_head h s e)
     | None \<Rightarrow>
        (case copy_result m src h s e of
           (Some x, data) \<Rightarrow> Aborted x ((dst @ data_head h s e) @ data)
         | (None, data) \<Rightarrow>
             if sample_rate h = 0
             then Aborted ZeroDivisionError ((dst @ data_head h s e) @ data)
             else Written ((dst @ data_head h s e) @ data)))"

text \<open>A machine that grants a gibibyte of memory at a time, on a file system with
  offsets up to a tebibyte.\<close>

definition demo_machine :: machine where
  "demo_machine = \<lparr>max_alloc = 2 ^ 30, max_seek = 2 ^ 40\<rparr>"

text \<open>The source \<open>demo_src\<close> with a format chunk size (offset 24) of \<open>2 ^ 63 + 52\<close>,
  with the channel number (offset 44) and the block size (offset 64) set to
  \<open>2 ^ 31\<close>, and with 8 channels of blocks of one byte.\<close>

definition demo_src_long_fmt :: bytes where
  "demo_src_long_fmt = take 24 demo_src @ le_bytes 8 (2 ^ 63 + 52) @ drop 32 demo_src"

definition demo_src_wide_frame :: bytes where
  "demo_src_wide_frame =
    take 44 demo_src @ le_bytes 4 (2 ^ 31) @ take 16 (drop 48 demo_src)
    @ le_bytes 4 (2 ^ 31) @ drop 68 demo_src"

definition demo_src_8ch :: bytes where
  "demo_src_8ch =
    take 44 demo_src @ le_bytes 4 8 @ take 16 (drop 48 demo_src)
    @ le_bytes 4 1 @ drop 68 demo_src"




section \<open>The CUE parser: properties\<close>


lemma parse_lines_append: "parse_lines (xs @ ys) st = parse_lines ys (parse_lines xs st)"
  by (induction xs arbitrary: st) simp_all


lemma parse_line_open_track_ok: "open_track_ok st \<Longrightarrow> open_track_ok (parse_line l st)"
  by (cases l) (auto simp: open_track_ok_def split: option.splits)

lemma parse_lines_open_track_ok: "open_track_ok st \<Longrightarrow> open_track_ok (parse_lines ls st)"
  by (induction ls arbitrary: st) (simp_all add: parse_line_open_track_ok)

lemma parse_init_open_track_ok: "open_track_ok parse_init"
  by (simp add: open_track_ok_def parse_init_def)

lemma closed_parse_line:
  "current_track st = None \<Longrightarrow> \<forall>n. l \<noteq> TRACK n \<Longrightarrow>
   current_track (parse_line l st) = None \<and> tracks (parse_line l st) = tracks st"
  by (cases l) auto

lemma closed_parse_lines:
  "current_track st = None \<Longrightarrow> \<forall>l\<in>set ls. \<forall>n. l \<noteq> TRACK n \<Longrightarrow>
   current_track (parse_lines ls st) = None \<and> tracks (parse_lines ls st) = tracks st"
proof (induction ls arbitrary: st)
  case Nil
  then show ?case by simp
next
  case (Cons l ls)
  from Cons.prems have step: "current_track (parse_line l st) = None"
    "tracks (parse_line l st) = tracks st"
    using closed_parse_line [of st l] by auto
  from Cons.IH [OF step(1)] Cons.prems(2) step(2) show ?case by simp
qed

text \<open>
  C8: when \<open>parse_cue\<close> processes an \<open>INDEX 01\<close> line while a track is open, that
  track's index timecode is set to the line's \<open>(mm, ss, ff)\<close>; and whatever lines
  follow before the next \<open>TRACK\<close> line, the track list stays as it was, and a
  \<open>TITLE\<close> or \<open>PERFORMER\<close> line among them sets the album's title or performer.
\<close>

theorem index01_closes_track:
  assumes "current_track (parse_lines pre parse_init) = Some i"
    and "\<forall>l\<in>set ls. \<forall>n. l \<noteq> TRACK n"
  shows "index_m (snd (parse_cue (pre @ [INDEX01 m s f])) ! i) = Some m
       \<and> index_s (snd (parse_cue (pre @ [INDEX01 m s f])) ! i) = Some s
       \<and> index_f (snd (parse_cue (pre @ [INDEX01 m s f])) ! i) = Some f
       \<and> snd (parse_cue (pre @ [INDEX01 m s f] @ ls)) = snd (parse_cue (pre @ [INDEX01 m s f]))
       \<and> snd (parse_cue (pre @ [INDEX01 m s f] @ ls @ [TITLE v]))
           = snd (parse_cue (pre @ [INDEX01 m s f]))
       \<and> fst (parse_cue (pre @ [INDEX01 m s f] @ ls @ [TITLE v])) ''TITLE'' = Some v
       \<and> snd (parse_cue (pre @ [INDEX01 m s f] @ ls @ [PERFORMER v]))
           = snd (parse_cue (pre @ [INDEX01 m s f]))
       \<and> fst (parse_cue (pre @ [INDEX01 m s f] @ ls @ [PERFORMER v])) ''PERFORMER'' = Some v"
proof -
  define st0 where "st0 = parse_lines pre parse_init"
  define st where "st = parse_line (INDEX01 m s f) st0"
  have ok: "i < length (tracks st0)"
    using parse_lines_open_track_ok [OF parse_init_open_track_ok, of pre] assms(1)
    by (simp add: open_track_ok_def st0_def)
  have st: "parse_lines (pre @ [INDEX01 m s f]) parse_init = st"
    by (simp add: parse_lines_append st_def st0_def)
  have closed: "current_track st = None"
    using assms(1) by (simp add: st_def st0_def)
  have idx: "index_m (tracks st ! i) = Some m" "index_s (tracks st ! i) = Some s"
    "index_f (tracks st ! i) = Some f"
    using assms(1) ok by (simp_all add: st_def st0_def)
  have after: "current_track (parse_lines ls st) = None" "tracks (parse_lines ls st) = tracks st"
    using closed_parse_lines [OF closed assms(2)] by auto
  have run: "parse_lines (pre @ INDEX01 m s f # ls @ r) parse_init
               = parse_lines r (parse_lines ls st)" for r
    by (simp add: parse_lines_append st_def st0_def)
  have run0: "parse_lines (pre @ INDEX01 m s f # ls) parse_init = parse_lines ls st"
    using run [of "[]"] by simp
  show ?thesis
    using idx after by (simp add: parse_cue_def Let_def st run run0)
qed

theorem index01_closes_track_witness:
  "current_track (parse_lines [FILE ''a.dsf'', TRACK ''01''] parse_init) = Some 0
   \<and> index_m (snd (parse_cue ([FILE ''a.dsf'', TRACK ''01''] @ [INDEX01 1 2 3])) ! 0) = Some 1
   \<and> title (snd (parse_cue ([FILE ''a.dsf'', TRACK ''01''] @ [INDEX01 1 2 3]
        @ [TITLE ''Late'', Unmatched] @ [TITLE ''Album''])) ! 0) = ''Track 01''
   \<and> fst (parse_cue ([FILE ''a.dsf'', TRACK ''01''] @ [INDEX01 1 2 3]
        @ [TITLE ''Late'', Unmatched] @ [TITLE ''Album''])) ''TITLE'' = Some ''Album''"
proof -
  have h1: "current_track (parse_lines [FILE ''a.dsf'', TRACK ''01''] parse_init) = Some 0"
    by (simp add: parse_init_def)
  have h2: "\<forall>l\<in>set [TITLE ''Late'', Unmatched]. \<forall>n. l \<noteq> TRACK n"
    by simp
  have t0: "title (snd (parse_cue ([FILE ''a.dsf'', TRACK ''01''] @ [INDEX01 1 2 3])) ! 0) = ''Track 01''"
    by (simp add: parse_cue_def parse_init_def)
  from index01_closes_track [OF h1 h2, of 1 2 3 "''Album''"] h1 t0 show ?thesis
    by simp
qed

section \<open>Bytes and fields: basic facts\<close>

lemma length_le_bytes [simp]: "length (le_bytes n v) = n"
  by (induction n arbitrary: v) simp_all

lemma le_int_le_bytes: "le_int (le_bytes n v) = v mod 256 ^ n"
proof (induction n arbitrary: v)
  case 0
  then show ?case by simp
next
  case (Suc n)
  have "v mod 256 + 256 * (v div 256 mod 256 ^ n) = v mod (256 * 256 ^ n)"
    using zmod_zmult2_eq [of "256 ^ n" v 256] by simp
  with Suc show ?case by simp
qed

lemma le_int_bounds: "0 \<le> le_int b \<and> le_int b < 256 ^ length b"
proof (induction b)
  case Nil
  then show ?case by simp
next
  case (Cons c b)
  have c: "0 \<le> (of_char c :: int)" "(of_char c :: int) < 256"
    by (simp_all add: of_char_def)
  from Cons c show ?case by simp
qed

lemma le_bytes_le_int: "le_bytes (length b) (le_int b) = b"
proof (induction b)
  case Nil
  then show ?case by simp
next
  case (Cons c b)
  have c: "0 \<le> (of_char c :: int)" "(of_char c :: int) < 256"
    by (simp_all add: of_char_def)
  then have "(of_char c + 256 * le_int b) div 256 = le_int b"
    by simp
  with Cons show ?case by simp
qed

lemma bind_r_simps [simp]:
  "bind_r (Inl e) k = Inl e" "bind_r (Inr v) k = k v"
  by (simp_all add: bind_r_def)

lemma read_Q_eq:
  "read_Q f = (if 8 \<le> length f then Inr (le_int (take 8 f), drop 8 f) else Inl StructError)"
  by (auto simp: read_Q_def f_read_def unpack_Q_def min_def)

lemma read_I_eq:
  "read_I f = (if 4 \<le> length f then Inr (le_int (take 4 f), drop 4 f) else Inl StructError)"
  by (auto simp: read_I_def f_read_def unpack_I_def min_def)

lemma tag_length: "take 4 f = [a, b, c, d] \<Longrightarrow> 4 \<le> length f"
proof -
  assume "take 4 f = [a, b, c, d]"
  then have "length (take 4 f) = 4" by simp
  then show ?thesis by simp
qed

section \<open>The reader: what it reads where\<close>

lemma read_Q_drop:
  "off + 8 \<le> length f \<Longrightarrow> read_Q (drop off f) = Inr (field_at off 8 f, drop (off + 8) f)"
  by (simp add: read_Q_eq field_at_def add.commute)

lemma read_I_drop:
  "off + 4 \<le> length f \<Longrightarrow> read_I (drop off f) = Inr (field_at off 4 f, drop (off + 4) f)"
  by (simp add: read_I_eq field_at_def add.commute)

lemma f_read_drop:
  "f_read 4 (drop off f) = (take 4 (drop off f), drop (off + 4) f)"
  by (simp add: f_read_def add.commute)

lemma read_dsf_header_ok:
  assumes "80 \<le> length f" "take 4 f = ''DSD ''" "take 4 (drop 20 f) = ''fmt ''"
    "take 4 (drop 68 f) = ''data''"
  shows "read_dsf_header p f =
     Inr \<lparr> filepath = p,
                total_file_size = field_at 4 8 f,
                metadata_offset = field_at 12 8 f,
                fmt_chunk_size = field_at 24 8 f,
                fmt_version = field_at 32 4 f,
                format_id = field_at 36 4 f,
                channel_type = field_at 40 4 f,
                channel_num = field_at 44 4 f,
                sample_rate = field_at 48 4 f,
                bits_per_sample = field_at 52 4 f,
                sample_count = field_at 56 8 f,
                block_size = field_at 64 4 f,
                data_offset = 80,
                data_size = field_at 72 8 f - 12 \<rparr>"
proof -
  have f0: "f_read 4 f = (take 4 f, drop 4 f)"
    by (simp add: f_read_def)
  show ?thesis
    unfolding read_dsf_header_def f0
    using assms by (simp add: read_Q_drop read_I_drop f_read_drop)
qed

lemma read_dsf_header_bad_fmt:
  assumes "20 \<le> length f" "take 4 f = ''DSD ''" "take 4 (drop 20 f) \<noteq> ''fmt ''"
  shows "read_dsf_header p f = Inl (ValueError ''fmt '')"
proof -
  have f0: "f_read 4 f = (take 4 f, drop 4 f)"
    by (simp add: f_read_def)
  show ?thesis
    unfolding read_dsf_header_def f0
    using assms by (simp add: read_Q_drop read_I_drop f_read_drop)
qed

section \<open>The extractor: what it writes\<close>

lemma pack_Q_eq_Inr: "pack_Q v = Inr b \<longleftrightarrow> u64 v \<and> b = le_bytes 8 v"
  by (auto simp: pack_Q_def u64_def)

lemma pack_I_eq_Inr: "pack_I v = Inr b \<longleftrightarrow> u32 v \<and> b = le_bytes 4 v"
  by (auto simp: pack_I_def u32_def)

lemma w_pack_Q: "w_pack pack_Q v d k = (if u64 v then k (d @ le_bytes 8 v) else Aborted StructError d)"
  by (simp add: w_pack_def pack_Q_def u64_def)

lemma w_pack_I: "w_pack pack_I v d k = (if u32 v then k (d @ le_bytes 4 v) else Aborted StructError d)"
  by (simp add: w_pack_def pack_I_def u32_def)

lemma u_consts [simp]: "u64 28" "u64 0" "u32 0"
  by (simp_all add: u64_def u32_def)

lemma alloc_error_None: "alloc_error m n = None \<longleftrightarrow> n \<le> alloc_limit m"
  by (auto simp: alloc_error_def alloc_limit_def)

lemma seek_error_None: "seek_error m off = None \<longleftrightarrow> 0 \<le> off \<and> off \<le> seek_limit m"
  by (auto simp: seek_error_def seek_limit_def ssize_max_def)

lemma src_read_ok:
  "0 \<le> n \<Longrightarrow> n \<le> alloc_limit m \<Longrightarrow> src_read m n f = Inr (take (nat n) f, drop (nat n) f)"
proof -
  assume n: "0 \<le> n" "n \<le> alloc_limit m"
  then have "alloc_error m n = None"
    by (simp add: alloc_error_None)
  with n show ?thesis
    by (simp add: src_read_def f_read_def)
qed

lemma zero_bytes_ok:
  "n \<le> alloc_limit m \<Longrightarrow> zero_bytes m n = Inr (replicate (nat n) (CHR 0x00))"
  by (auto simp: zero_bytes_def alloc_limit_def)

lemma write_dsf_track_fits:
  assumes "s < e" "header_fits h s e"
  shows "write_dsf_track m src h s e
           = w_fmt_extra m src h (dsf_prefix h s e) (write_rest m src h s e)"
  using assms
  by (simp add: write_dsf_track_def w_pack_Q w_pack_I header_fits_def Let_def
      new_data_payload_def new_total_size_def new_sample_count_def dsf_prefix_def
      data_head_def src_data_start_def copy_result_def write_rest_def [abs_def]
      cong: option.case_cong prod.case_cong if_cong)

lemma write_dsf_track_Skipped: "write_dsf_track m src h s e = Skipped \<longleftrightarrow> e - s \<le> 0"
  by (simp add: write_dsf_track_def w_pack_Q w_pack_I w_fmt_extra_def Let_def
      split: option.splits sum.splits prod.splits)

lemma write_dsf_track_Written_fits:
  "write_dsf_track m src h s e = Written out \<Longrightarrow> s < e \<and> header_fits h s e"
  by (simp add: write_dsf_track_def w_pack_Q w_pack_I header_fits_def Let_def
      new_data_payload_def new_total_size_def new_sample_count_def w_fmt_extra_def
      split: if_splits option.splits sum.splits prod.splits)

section \<open>Block math: rounding\<close>

lemma pow2_pos [simp]: "0 < pow2 e"
  by (simp add: pow2_def)





lemma round_half_even_of_int [simp]: "round_half_even (of_int n) = n"
  by (simp add: round_half_even_def)

lemma ulp_exp_ge: "- 1074 \<le> ulp_exp a"
  by (simp add: ulp_exp_def)

lemma bitlen_int_scaled:
  assumes "\<bar>n\<bar> < 2 ^ P"
  shows "bitlen \<lfloor>(of_int \<bar>n\<bar> :: rat) * 2 ^ N\<rfloor> \<le> int (P + N)"
proof -
  have "(of_int \<bar>n\<bar> :: rat) * 2 ^ N = of_int (\<bar>n\<bar> * 2 ^ N)" by simp
  then have fl: "\<lfloor>(of_int \<bar>n\<bar> :: rat) * 2 ^ N\<rfloor> = \<bar>n\<bar> * 2 ^ N"
    by (simp only: floor_of_int)
  have "\<bar>n\<bar> * 2 ^ N < 2 ^ P * (2 ^ N :: int)"
    using assms by (intro mult_strict_right_mono) simp_all
  then have "\<bar>n\<bar> * 2 ^ N < (2 ^ (P + N) :: int)"
    by (simp only: power_add)
  then have "bitlen (\<bar>n\<bar> * 2 ^ N) \<le> int (P + N)"
    by (simp add: bitlen_le_iff_power flip: of_nat_add)
  then show ?thesis by (simp only: fl)
qed

lemma ulp_exp_int_le:
  assumes "\<bar>n\<bar> < 2 ^ 53"
  shows "ulp_exp (of_int \<bar>n\<bar>) \<le> 0"
proof -
  have "bitlen \<lfloor>(of_int \<bar>n\<bar> :: rat) * 2 ^ 1074\<rfloor> \<le> int (53 + 1074)"
    by (rule bitlen_int_scaled [OF assms])
  then have "bitlen \<lfloor>(of_int \<bar>n\<bar> :: rat) * 2 ^ 1074\<rfloor> - 1127 \<le> 0"
    by simp
  then show ?thesis
    unfolding ulp_exp_def by (rule max.boundedI) simp
qed

lemma round_binary64_of_int:
  assumes "\<bar>n\<bar> < 2 ^ 53"
  shows "round_binary64 (of_int n) = of_int n"
proof -
  define e where "e = ulp_exp (of_int \<bar>n\<bar>)"
  have e: "e \<le> 0" unfolding e_def by (rule ulp_exp_int_le [OF assms])
  have p: "pow2 e = 1 / 2 ^ nat (- e)"
    using e by (cases "e = 0") (simp_all add: pow2_def)
  have q: "(of_int \<bar>n\<bar> :: rat) / pow2 e = of_int (\<bar>n\<bar> * 2 ^ nat (- e))"
    by (simp add: p)
  have "round_binary64 (of_int n)
          = sgn (of_int n) * of_int (round_half_even (of_int \<bar>n\<bar> / pow2 e)) * pow2 e"
    by (simp add: round_binary64_def e_def Let_def)
  also have "\<dots> = sgn (of_int n) * of_int (\<bar>n\<bar> * 2 ^ nat (- e)) * pow2 e"
    by (simp only: q round_half_even_of_int)
  also have "\<dots> = sgn (of_int n) * of_int \<bar>n\<bar>"
    by (simp add: p)
  also have "\<dots> = (of_int n :: rat)"
    by (cases "0 \<le> n") (simp_all add: sgn_if)
  finally show ?thesis .
qed

lemma to_float_of_int:
  assumes "\<bar>n\<bar> < 2 ^ 53"
  shows "to_float (of_int n) = Finite (of_int n)"
proof -
  have "\<bar>n\<bar> < (2 ^ 1024 :: int)"
    using assms by (rule less_trans) simp
  then have "\<bar>of_int n :: rat\<bar> < of_int (2 ^ 1024)"
    by (simp only: of_int_abs [symmetric] of_int_less_iff)
  then show ?thesis
    by (simp add: to_float_def round_binary64_of_int [OF assms])
qed

lemma float_of_int_exact:
  "\<bar>n\<bar> < 2 ^ 53 \<Longrightarrow> float_of_int n = Inr (Finite (of_int n))"
  by (simp add: float_of_int_def to_float_of_int)


section \<open>Block math: the two functions\<close>

lemma floor_rat_numeral [simp]: "\<lfloor>numeral a / numeral b :: rat\<rfloor> = numeral a div numeral b"
  by (metis floor_divide_of_int_eq of_int_numeral)

lemma int_of_float_of_int [simp]: "int_of_float (Finite (of_int k)) = Inr k"
  by simp

lemma time_to_samples_whole:
  assumes "\<bar>mm * 60 + ss\<bar> < 2 ^ 53" "\<bar>sr\<bar> < 2 ^ 53" "\<bar>(mm * 60 + ss) * sr\<bar> < 2 ^ 53"
  shows "time_to_samples mm ss 0 sr = Inr ((mm * 60 + ss) * sr)"
proof -
  have z: "float_of_int 0 = Inr (Finite 0)"
    using float_of_int_exact [of 0] by simp
  have d: "fdiv75 (Finite 0) = Finite 0"
    using to_float_of_int [of 0] by simp
  have a: "fadd (Finite (of_int (mm * 60 + ss))) (Finite 0) = Finite (of_int (mm * 60 + ss))"
    using to_float_of_int [OF assms(1)] by simp
  have m: "fmul (Finite (of_int (mm * 60 + ss))) (Finite (of_int sr))
             = Finite (of_int ((mm * 60 + ss) * sr))"
    using to_float_of_int [OF assms(3)] by simp
  show ?thesis
    unfolding time_to_samples_def z float_of_int_exact [OF assms(1)]
      float_of_int_exact [OF assms(2)] bind_r_simps Let_def d a m
    by (rule int_of_float_of_int)
qed



lemma time_to_samples_zero: "\<bar>sr\<bar> < 2 ^ 53 \<Longrightarrow> time_to_samples 0 0 0 sr = Inr 0"
  using time_to_samples_whole [of 0 0 sr] by simp





lemma samples_to_block_index_eq:
  "b \<noteq> 0 \<Longrightarrow> samples_to_block_index s b = Inr (s div (b * 8))"
  by (simp add: samples_to_block_index_def)


section \<open>Reader and extractor against the container layout\<close>

lemma le_bytes_8_0: "le_bytes 8 0 = replicate 8 (CHR 0x00)"
  by code_simp

lemma demo_src_read: "read_dsf_header ''/music/album.dsf'' demo_src = Inr demo_hdr"
  by code_simp

lemma written_prefix:
  assumes "write_dsf_track m src h s e = Written out"
  shows "\<exists>r. out = dsf_prefix h s e @ r"
proof -
  from assms have fits: "s < e" "header_fits h s e"
    by (simp_all add: write_dsf_track_Written_fits)
  from assms show ?thesis
    unfolding write_dsf_track_fits [OF fits]
    by (auto simp: w_fmt_extra_def write_rest_def Let_def
        split: if_splits option.splits sum.splits prod.splits)
qed

lemma dsf_prefix_start:
  "dsf_prefix h s e = ''DSD '' @ le_bytes 8 28 @ le_bytes 8 (new_total_size h s e)
     @ replicate 8 (CHR 0x00) @ drop 28 (dsf_prefix h s e)"
  by (simp add: dsf_prefix_def le_bytes_8_0)

lemma written_starts:
  assumes "write_dsf_track m src h s e = Written out"
  shows "take 4 out = ''DSD ''" and "take 4 (drop 20 out) = replicate 4 (CHR 0x00)"
    and "28 \<le> length out"
proof -
  obtain r where out: "out = ''DSD '' @ le_bytes 8 28 @ le_bytes 8 (new_total_size h s e)
     @ replicate 8 (CHR 0x00) @ r"
    using written_prefix [OF assms] dsf_prefix_start [of h s e] by (metis append.assoc)
  show "take 4 out = ''DSD ''" by (simp add: out)
  show "take 4 (drop 20 out) = replicate 4 (CHR 0x00)" by (simp add: out)
  show "28 \<le> length out" by (simp add: out)
qed

text \<open>
  C1 (the code fails it): whenever \<open>write_dsf_track\<close> completes, \<open>read_dsf_header\<close>
  rejects the file it wrote, with the \<open>ValueError\<close> of a missing \<open>fmt\<close> tag:
  the reader takes bytes 4..19 for the total size and the metadata pointer and looks
  for the tag at offset 20, where the written file holds the metadata pointer 0. No
  descriptor is read back, so no field of one equals the source's.
\<close>

theorem round_trip_rejected:
  assumes "write_dsf_track m src h start_block end_block = Written out"
  shows "read_dsf_header out_path out = Inl (ValueError ''fmt '')"
proof -
  note st = written_starts [OF assms]
  have "replicate 4 (CHR 0x00) \<noteq> ''fmt ''"
    by (simp add: eval_nat_numeral)
  with st show ?thesis
    by (intro read_dsf_header_bad_fmt) simp_all
qed

theorem round_trip_rejected_witness:
  "read_dsf_header ''/music/album.dsf'' demo_src = Inr demo_hdr
   \<and> (\<exists>out. write_dsf_track demo_machine demo_src demo_hdr 0 2 = Written out
          \<and> drop 92 out = ''0123456789abcdef''
          \<and> read_dsf_header ''/music/01 - Track 01.dsf'' out = Inl (ValueError ''fmt ''))"
proof -
  have w: "write_dsf_track demo_machine demo_src demo_hdr 0 2
             = Written (dsf_prefix demo_hdr 0 2 @ data_head demo_hdr 0 2 @ ''0123456789abcdef'')"
    by code_simp
  have d: "drop 92 (dsf_prefix demo_hdr 0 2 @ data_head demo_hdr 0 2 @ ''0123456789abcdef'')
             = ''0123456789abcdef''"
    by (simp add: dsf_prefix_def data_head_def)
  from round_trip_rejected [OF w] w d demo_src_read show ?thesis
    by blast
qed

text \<open>
  C2 (the code fails it): on a file in the DSF layout (a 28-byte container chunk with
  tag, chunk size 28, total file size and metadata pointer 0, then the format chunk),
  \<open>read_dsf_header\<close> does not succeed: it raises the \<open>ValueError\<close> of a missing
  \<open>fmt\<close> tag.
\<close>

theorem container_chunk_misread:
  "read_dsf_header ''/music/album.dsf'' dsf_file = Inl (ValueError ''fmt '')"
proof -
  have "take 4 (drop 20 dsf_file) = replicate 4 (CHR 0x00)"
    by (simp add: dsf_file_def le_bytes_8_0)
  moreover have "replicate 4 (CHR 0x00) \<noteq> ''fmt ''"
    by (simp add: eval_nat_numeral)
  moreover have "take 4 dsf_file = ''DSD ''" "20 \<le> length dsf_file"
    by (simp_all add: dsf_file_def)
  ultimately show ?thesis
    by (intro read_dsf_header_bad_fmt) simp_all
qed

text \<open>Whatever file the reader accepts, it reports the 8 bytes at offset 4 as the
  total file size and the 8 bytes at offset 12 as the metadata pointer: for a file that
  begins with a 28-byte container chunk, these are the chunk size and the total file
  size.\<close>

lemma read_dsf_header_container:
  assumes "read_dsf_header p f = Inr h"
  shows "total_file_size h = field_at 4 8 f \<and> metadata_offset h = field_at 12 8 f"
proof -
  have f0: "f_read 4 f = (take 4 f, drop 4 f)"
    by (simp add: f_read_def)
  show ?thesis
  proof (cases "20 \<le> length f")
    case True
    then have q1: "read_Q (drop 4 f) = Inr (field_at 4 8 f, drop 12 f)"
      and q2: "read_Q (drop 12 f) = Inr (field_at 12 8 f, drop 20 f)"
      using read_Q_drop [of 4 f] read_Q_drop [of 12 f] by simp_all
    from assms show ?thesis
      by (auto simp: read_dsf_header_def f0 q1 q2 Let_def bind_r_def
          split: if_splits prod.splits sum.splits)
  next
    case False
    show ?thesis
    proof (cases "12 \<le> length f")
      case True
      then have q1: "read_Q (drop 4 f) = Inr (field_at 4 8 f, drop 12 f)"
        using read_Q_drop [of 4 f] by simp
      have q2: "read_Q (drop 12 f) = Inl StructError"
        using False by (simp add: read_Q_eq)
      from assms show ?thesis
        by (simp add: read_dsf_header_def f0 q1 q2 split: if_splits)
    next
      case False
      then have q1: "read_Q (drop 4 f) = Inl StructError"
        by (simp add: read_Q_eq)
      from assms show ?thesis
        by (simp add: read_dsf_header_def f0 q1 split: if_splits)
    qed
  qed
qed

lemma container_chunk_shifted:
  assumes "read_dsf_header p (''DSD '' @ le_bytes 8 chunk_size @ le_bytes 8 total_size
             @ le_bytes 8 metadata @ rest) = Inr h"
  shows "total_file_size h = chunk_size mod 2 ^ 64 \<and> metadata_offset h = total_size mod 2 ^ 64"
  using read_dsf_header_container [OF assms]
  by (simp add: field_at_def le_int_le_bytes)

section \<open>Division preconditions on the block geometry\<close>

lemma field_at_bounds: "0 \<le> field_at off n f \<and> field_at off n f < 256 ^ n"
proof -
  have "length (take n (drop off f)) \<le> n" by simp
  then have "(256::int) ^ length (take n (drop off f)) \<le> 256 ^ n"
    by (intro power_increasing) simp_all
  with le_int_bounds [of "take n (drop off f)"] show ?thesis
    unfolding field_at_def by (metis less_le_trans)
qed

lemma float_of_int_error: "float_of_int n = Inl e \<Longrightarrow> e = OverflowError"
  by (auto simp: float_of_int_def split: pyfloat.splits)

lemma int_of_float_error: "int_of_float x = Inl e \<Longrightarrow> e \<noteq> ZeroDivisionError"
  by (cases x) auto

lemma time_to_samples_error: "time_to_samples m s f r = Inl e \<Longrightarrow> e \<noteq> ZeroDivisionError"
  by (auto simp: time_to_samples_def bind_r_def Let_def split: sum.splits
      dest: float_of_int_error int_of_float_error)

lemma index_time_error: "index_time t = Inl e \<Longrightarrow> e = KeyError"
  by (auto simp: index_time_def split: option.splits)

lemma block_range_zero_division:
  "block_range h ts i = Inl ZeroDivisionError \<longleftrightarrow> block_size h = 0 \<or> channel_num h = 0"
proof (cases "block_size h * channel_num h = 0")
  case True
  then show ?thesis by (auto simp: block_range_def)
next
  case False
  then have b: "block_size h \<noteq> 0" and c: "channel_num h \<noteq> 0" by simp_all
  have "block_range h ts i \<noteq> Inl ZeroDivisionError"
    using False b
    by (auto simp: block_range_def bind_r_def Let_def samples_to_block_index_def
        split: sum.splits prod.splits
        dest: time_to_samples_error index_time_error)
  with b c show ?thesis by simp
qed

text \<open>
  C9 (as stated, it fails): a source of 72 bytes with the three tags where the reader
  looks for them is not accepted: the read of the data chunk size raises
  \<open>struct.error\<close>.
\<close>

theorem division_preconditions_counterexample:
  "take 4 (take 72 demo_src) = ''DSD ''
   \<and> take 4 (drop 20 (take 72 demo_src)) = ''fmt ''
   \<and> take 4 (drop 68 (take 72 demo_src)) = ''data''
   \<and> read_dsf_header ''/music/album.dsf'' (take 72 demo_src) = Inl StructError"
  by code_simp

text \<open>
  C9 (amended): \<open>read_dsf_header\<close> accepts every source of at least 80 bytes with the
  three tags at the offsets 0, 20 and 68, whatever its numeric fields; the divisors of
  the derived computations (\<open>frame_size\<close> for \<open>total_blocks\<close>, \<open>block_size * 8\<close> for
  \<open>samples_to_block_index\<close>) are non-zero exactly when \<open>block_size \<ge> 1\<close> and
  \<open>channel_num \<ge> 1\<close>; and the block range computation of \<open>split_dsf_cue\<close> raises
  \<open>ZeroDivisionError\<close> exactly when \<open>block_size = 0\<close> or \<open>channel_num = 0\<close>.
\<close>

theorem division_preconditions:
  assumes "80 \<le> length f" "take 4 f = ''DSD ''" "take 4 (drop 20 f) = ''fmt ''"
    "take 4 (drop 68 f) = ''data''"
  shows "\<exists>h. read_dsf_header p f = Inr h
      \<and> block_size h = field_at 64 4 f \<and> channel_num h = field_at 44 4 f
      \<and> sample_rate h = field_at 48 4 f \<and> data_size h = field_at 72 8 f - 12
      \<and> ((block_size h * channel_num h \<noteq> 0 \<and> block_size h * 8 \<noteq> 0)
            \<longleftrightarrow> (1 \<le> block_size h \<and> 1 \<le> channel_num h))
      \<and> ((block_range h ts i = Inl ZeroDivisionError)
            \<longleftrightarrow> (block_size h = 0 \<or> channel_num h = 0))
      \<and> ((samples_to_block_index s (block_size h) = Inl ZeroDivisionError)
            \<longleftrightarrow> block_size h = 0)"
proof -
  let ?h = "\<lparr> filepath = p,
                total_file_size = field_at 4 8 f,
                metadata_offset = field_at 12 8 f,
                fmt_chunk_size = field_at 24 8 f,
                fmt_version = field_at 32 4 f,
                format_id = field_at 36 4 f,
                channel_type = field_at 40 4 f,
                channel_num = field_at 44 4 f,
                sample_rate = field_at 48 4 f,
                bits_per_sample = field_at 52 4 f,
                sample_count = field_at 56 8 f,
                block_size = field_at 64 4 f,
                data_offset = 80,
                data_size = field_at 72 8 f - 12 \<rparr>"
  have r: "read_dsf_header p f = Inr ?h"
    by (rule read_dsf_header_ok [OF assms])
  have nn: "0 \<le> block_size ?h" "0 \<le> channel_num ?h"
    using field_at_bounds [of 64 4 f] field_at_bounds [of 44 4 f] by simp_all
  have geo: "(block_size ?h * channel_num ?h \<noteq> 0 \<and> block_size ?h * 8 \<noteq> 0)
            \<longleftrightarrow> (1 \<le> block_size ?h \<and> 1 \<le> channel_num ?h)"
    using nn by auto
  have stb: "(samples_to_block_index s (block_size ?h) = Inl ZeroDivisionError)
            \<longleftrightarrow> block_size ?h = 0"
    by (simp add: samples_to_block_index_def)
  show ?thesis
    using r geo stb block_range_zero_division [of ?h ts i]
    by (intro exI [of _ ?h]) simp
qed

theorem division_preconditions_witness:
  "\<exists>h. read_dsf_header ''/music/album.dsf'' demo_src_zero_block = Inr h
      \<and> block_size h = 0 \<and> channel_num h = 2
      \<and> block_range h [] 0 = Inl ZeroDivisionError
      \<and> samples_to_block_index 5644800 (block_size h) = Inl ZeroDivisionError"
proof -
  have a: "80 \<le> length demo_src_zero_block" "take 4 demo_src_zero_block = ''DSD ''"
    "take 4 (drop 20 demo_src_zero_block) = ''fmt ''"
    "take 4 (drop 68 demo_src_zero_block) = ''data''"
    by code_simp+
  have b: "field_at 64 4 demo_src_zero_block = 0" "field_at 44 4 demo_src_zero_block = 2"
    by code_simp+
  from division_preconditions [OF a, of "''/music/album.dsf''" "[]" 0 5644800] b
  show ?thesis by auto
qed

section \<open>The copy loop and the truncated source\<close>

lemma copy_blocks_ok:
  assumes "0 < buf_size" "min buf_size remaining \<le> alloc_limit m"
    "int (nat remaining - length (take (nat remaining) src)) \<le> alloc_limit m"
  shows "copy_blocks m remaining buf_size src
           = (None, take (nat remaining) src
                @ replicate (nat remaining - length (take (nat remaining) src)) (CHR 0x00))"
  using assms
proof (induction m remaining buf_size src rule: copy_blocks.induct)
  case (1 m remaining buf_size src)
  show ?case
  proof (cases "remaining > 0")
    case False
    then show ?thesis by (simp add: copy_blocks.simps [of m remaining])
  next
    case pos: True
    define t where "t = nat (min buf_size remaining)"
    have t: "0 < t" "t \<le> nat remaining"
      using pos "1.prems" by (simp_all add: t_def)
    have "0 \<le> min buf_size remaining"
      using pos "1.prems" by simp
    then have rd: "src_read m (min buf_size remaining) src = Inr (take t src, drop t src)"
      using "1.prems"(2) by (simp add: src_read_ok t_def)
    show ?thesis
    proof (cases "take t src = []")
      case True
      with t have e: "src = []" by simp
      have "remaining \<le> alloc_limit m"
        using "1.prems"(3) pos by (simp add: e)
      then have "zero_bytes m remaining = Inr (replicate (nat remaining) (CHR 0x00))"
        by (rule zero_bytes_ok)
      with pos rd e show ?thesis
        by (simp add: copy_blocks.simps [of m remaining] Let_def)
    next
      case False
      have unf: "copy_blocks m remaining buf_size src
           = apsnd (\<lambda>out. take t src @ out)
               (copy_blocks m (remaining - int (length (take t src))) buf_size (drop t src))"
        using pos rd False by (simp add: copy_blocks.simps [of m remaining] Let_def)
      have mn: "min buf_size (remaining - int (length (take t src))) \<le> alloc_limit m"
        using "1.prems"(2) by simp
      show ?thesis
      proof (cases "t \<le> length src")
        case True
        then have len: "length (take t src) = t" by simp
        have n: "nat (remaining - int t) = nat remaining - t"
          using t by simp
        have tk: "take (nat remaining) src = take t src @ take (nat remaining - t) (drop t src)"
          using t by (metis le_add_diff_inverse take_add)
        have ln: "length (take (nat remaining) src)
                    = t + length (take (nat remaining - t) (drop t src))"
          using tk len by (metis length_append)
        have ms: "int (nat (remaining - int (length (take t src)))
                    - length (take (nat (remaining - int (length (take t src)))) (drop t src)))
                  \<le> alloc_limit m"
          using "1.prems"(3) by (simp only: len n ln diff_diff_left)
        have IH: "copy_blocks m (remaining - int (length (take t src))) buf_size (drop t src)
           = (None, take (nat (remaining - int (length (take t src)))) (drop t src)
             @ replicate (nat (remaining - int (length (take t src)))
                 - length (take (nat (remaining - int (length (take t src)))) (drop t src)))
                 (CHR 0x00))"
          using "1.IH" [OF pos refl rd refl False "1.prems"(1) mn ms] .
        have IH': "copy_blocks m (remaining - int t) buf_size (drop t src)
           = (None, take (nat remaining - t) (drop t src)
             @ replicate (nat remaining - t - length (take (nat remaining - t) (drop t src)))
                 (CHR 0x00))"
          using IH by (simp only: len n)
        have "copy_blocks m remaining buf_size src
           = apsnd (\<lambda>out. take t src @ out) (copy_blocks m (remaining - int t) buf_size (drop t src))"
          using unf by (simp only: len)
        also have "\<dots> = (None, (take t src @ take (nat remaining - t) (drop t src))
             @ replicate (nat remaining - t - length (take (nat remaining - t) (drop t src)))
                 (CHR 0x00))"
          by (simp only: IH' apsnd_conv append_assoc)
        also have "\<dots> = (None, take (nat remaining) src
             @ replicate (nat remaining - length (take (nat remaining) src)) (CHR 0x00))"
          by (simp only: tk [symmetric] ln diff_diff_left)
        finally show ?thesis .
      next
        case False
        then have short: "length src < t" by simp
        then have a: "take t src = src" "drop t src = []" "take (nat remaining) src = src"
          using t by simp_all
        have n: "nat (remaining - int (length src)) = nat remaining - length src"
          using short t by simp
        have ms: "int (nat (remaining - int (length (take t src)))
                    - length (take (nat (remaining - int (length (take t src)))) (drop t src)))
                  \<le> alloc_limit m"
          using "1.prems"(3) by (simp add: a n)
        have IH: "copy_blocks m (remaining - int (length (take t src))) buf_size (drop t src)
           = (None, take (nat (remaining - int (length (take t src)))) (drop t src)
             @ replicate (nat (remaining - int (length (take t src)))
                 - length (take (nat (remaining - int (length (take t src)))) (drop t src)))
                 (CHR 0x00))"
          using "1.IH" [OF pos refl rd refl \<open>take t src \<noteq> []\<close> "1.prems"(1) mn ms] .
        have IH': "copy_blocks m (remaining - int (length src)) buf_size []
           = (None, replicate (nat (remaining - int (length src))) (CHR 0x00))"
          using IH by (simp add: a)
        show ?thesis
          using unf by (simp add: a IH' n)
      qed
    qed
  qed
qed

lemma read_Q_drop_if:
  "read_Q (drop off f) = (if off + 8 \<le> length f then Inr (field_at off 8 f, drop (off + 8) f)
                          else Inl StructError)"
  by (auto simp: read_Q_eq field_at_def add.commute)

lemma read_I_drop_if:
  "read_I (drop off f) = (if off + 4 \<le> length f then Inr (field_at off 4 f, drop (off + 4) f)
                          else Inl StructError)"
  by (auto simp: read_I_eq field_at_def add.commute)

lemma read_dsf_header_Inr_tags:
  assumes "read_dsf_header p f = Inr h"
  shows "80 \<le> length f \<and> take 4 f = ''DSD '' \<and> take 4 (drop 20 f) = ''fmt ''
         \<and> take 4 (drop 68 f) = ''data''"
proof -
  have f0: "f_read 4 f = (take 4 f, drop 4 f)"
    by (simp add: f_read_def)
  from assms show ?thesis
    unfolding read_dsf_header_def f0
    by (simp add: read_Q_drop_if read_I_drop_if f_read_drop split: if_splits)
qed

section \<open>Truncated sources\<close>

lemma read_dsf_header_Inr:
  assumes "read_dsf_header p f = Inr h"
  shows "h = \<lparr> filepath = p,
                total_file_size = field_at 4 8 f,
                metadata_offset = field_at 12 8 f,
                fmt_chunk_size = field_at 24 8 f,
                fmt_version = field_at 32 4 f,
                format_id = field_at 36 4 f,
                channel_type = field_at 40 4 f,
                channel_num = field_at 44 4 f,
                sample_rate = field_at 48 4 f,
                bits_per_sample = field_at 52 4 f,
                sample_count = field_at 56 8 f,
                block_size = field_at 64 4 f,
                data_offset = 80,
                data_size = field_at 72 8 f - 12 \<rparr>"
proof -
  note t = read_dsf_header_Inr_tags [OF assms]
  from t have "read_dsf_header p f = Inr \<lparr> filepath = p,
                total_file_size = field_at 4 8 f,
                metadata_offset = field_at 12 8 f,
                fmt_chunk_size = field_at 24 8 f,
                fmt_version = field_at 32 4 f,
                format_id = field_at 36 4 f,
                channel_type = field_at 40 4 f,
                channel_num = field_at 44 4 f,
                sample_rate = field_at 48 4 f,
                bits_per_sample = field_at 52 4 f,
                sample_count = field_at 56 8 f,
                block_size = field_at 64 4 f,
                data_offset = 80,
                data_size = field_at 72 8 f - 12 \<rparr>"
    by (intro read_dsf_header_ok) simp_all
  with assms show ?thesis by simp
qed

lemma u32_field: "u32 (field_at off 4 f)"
  using field_at_bounds [of off 4 f] by (simp add: u32_def)

lemma u64_field: "u64 (field_at off 8 f)"
  using field_at_bounds [of off 8 f] by (simp add: u64_def)

lemma read_header_ranges:
  assumes "read_dsf_header p f = Inr h"
  shows "u64 (fmt_chunk_size h)" "u32 (fmt_version h)" "u32 (format_id h)"
    "u32 (channel_type h)" "u32 (channel_num h)" "u32 (sample_rate h)"
    "u32 (bits_per_sample h)" "u32 (block_size h)" "data_offset h = 80"
  by (simp_all add: read_dsf_header_Inr [OF assms] u32_field u64_field)

lemma read_header_fits:
  assumes "read_dsf_header p f = Inr h" "s < e"
    "new_total_size h s e < 2 ^ 64" "new_sample_count h s e < 2 ^ 64"
  shows "header_fits h s e"
proof -
  note r = read_header_ranges [OF assms(1)]
  have bs: "0 \<le> block_size h" and cn: "0 \<le> channel_num h" and fc: "0 \<le> fmt_chunk_size h"
    using r by (simp_all add: u32_def u64_def)
  have pl: "0 \<le> new_data_payload h s e"
    using bs cn assms(2) by (simp add: new_data_payload_def)
  have sc: "0 \<le> new_sample_count h s e"
    using bs assms(2) by (simp add: new_sample_count_def)
  have "u64 (new_total_size h s e)" "u64 (12 + new_data_payload h s e)"
    "u64 (new_sample_count h s e)"
    using pl sc fc assms(3,4) by (simp_all add: u64_def new_total_size_def)
  with r show ?thesis
    by (simp add: header_fits_def)
qed

lemma w_fmt_extra_ok:
  assumes "80 \<le> seek_limit m" "fmt_chunk_size h - 52 \<le> alloc_limit m"
  shows "w_fmt_extra m src h dst k = k (dst @ fmt_extra src h)"
proof (cases "fmt_chunk_size h > 52")
  case True
  have "seek_error m (28 + 52) = None"
    using assms(1) by (simp add: seek_error_None)
  moreover have "src_read m (fmt_chunk_size h - 52) (drop (28 + 52) src)
      = Inr (take (nat (fmt_chunk_size h - 52)) (drop 80 src),
             drop (nat (fmt_chunk_size h - 52)) (drop 80 src))"
    using True assms(2) src_read_ok [of "fmt_chunk_size h - 52" m "drop 80 src"] by simp
  ultimately show ?thesis
    using True by (simp add: w_fmt_extra_def fmt_extra_def Let_def)
next
  case False
  then show ?thesis
    by (simp add: w_fmt_extra_def fmt_extra_def)
qed

lemma copy_result_eq:
  assumes "s < e" "0 \<le> block_size h" "0 \<le> channel_num h"
    "min (block_size h * channel_num h * 64) (new_data_payload h s e) \<le> alloc_limit m"
    "new_data_payload h s e - int (length (supplied src h s e)) \<le> alloc_limit m"
  shows "copy_result m src h s e
    = (None, supplied src h s e
        @ replicate (nat (new_data_payload h s e) - length (supplied src h s e)) (CHR 0x00))"
proof (cases "0 < block_size h * channel_num h")
  case True
  then have b: "0 < block_size h * channel_num h * 64" by simp
  have "0 \<le> new_data_payload h s e"
    using True assms(1) by (simp add: new_data_payload_def)
  then have "int (nat (new_data_payload h s e) - length (supplied src h s e))
      = new_data_payload h s e - int (length (supplied src h s e))"
    by (simp add: supplied_def)
  then have ms: "int (nat (new_data_payload h s e)
                   - length (take (nat (new_data_payload h s e))
                       (drop (nat (src_data_start h s)) src))) \<le> alloc_limit m"
    using assms(5) by (simp add: supplied_def)
  show ?thesis
    unfolding copy_result_def supplied_def
    by (rule copy_blocks_ok [OF b assms(4) ms])
next
  case False
  have "0 \<le> block_size h * channel_num h"
    using assms(2,3) by (rule mult_nonneg_nonneg)
  with False have z: "block_size h * channel_num h = 0"
    by linarith
  have "copy_blocks m 0 0 (drop (nat (src_data_start h s)) src) = (None, [])"
    by (simp add: copy_blocks.simps [of m 0])
  then show ?thesis
    unfolding copy_result_def supplied_def new_data_payload_def z
    by simp
qed

text \<open>
  C6 (as stated, it fails): with a truncated source, \<open>write_dsf_track\<close> does abort
  where the header has the sample rate 0 (which \<open>read_dsf_header\<close> accepts): the
  output is written and zero-filled, and then the progress message divides by the
  sample rate. It aborts with \<open>struct.error\<close>, after the first 12 bytes, where the
  sizes of the block range do not fit the 64-bit fields of the output header; with
  \<open>ValueError\<close> where the start offset in the source is no signed 64-bit number; with
  \<open>OverflowError\<close> where the extra format bytes or a chunk of the copy are of a size
  that is none; and with \<open>MemoryError\<close> where the zero padding is too large an
  object.
\<close>

theorem truncated_source_counterexample:
  "read_dsf_header ''/music/album.dsf'' demo_src_zero_rate = Inr (demo_hdr\<lparr>sample_rate := 0\<rparr>)
   \<and> write_dsf_track demo_machine (take 88 demo_src_zero_rate)
         (demo_hdr\<lparr>sample_rate := 0\<rparr>) 0 2
       = Aborted ZeroDivisionError
           (dsf_prefix (demo_hdr\<lparr>sample_rate := 0\<rparr>) 0 2
            @ data_head (demo_hdr\<lparr>sample_rate := 0\<rparr>) 0 2
            @ ''01234567'' @ replicate 8 (CHR 0x00))
   \<and> write_dsf_track demo_machine (take 88 demo_src) demo_hdr 0 (2 ^ 61)
       = Aborted StructError (''DSD '' @ le_bytes 8 28)
   \<and> write_dsf_track demo_machine (take 88 demo_src) demo_hdr (2 ^ 60) (2 ^ 60 + 2)
       = Aborted (ValueError ''offset'')
           (dsf_prefix demo_hdr (2 ^ 60) (2 ^ 60 + 2) @ data_head demo_hdr (2 ^ 60) (2 ^ 60 + 2))
   \<and> read_dsf_header ''/music/album.dsf'' demo_src_long_fmt
       = Inr (demo_hdr\<lparr>fmt_chunk_size := 2 ^ 63 + 52\<rparr>)
   \<and> write_dsf_track demo_machine (take 88 demo_src_long_fmt)
         (demo_hdr\<lparr>fmt_chunk_size := 2 ^ 63 + 52\<rparr>) 0 2
       = Aborted OverflowError (dsf_prefix (demo_hdr\<lparr>fmt_chunk_size := 2 ^ 63 + 52\<rparr>) 0 2)
   \<and> read_dsf_header ''/music/album.dsf'' demo_src_wide_frame
       = Inr (demo_hdr\<lparr>channel_num := 2 ^ 31, block_size := 2 ^ 31\<rparr>)
   \<and> write_dsf_track demo_machine (take 88 demo_src_wide_frame)
         (demo_hdr\<lparr>channel_num := 2 ^ 31, block_size := 2 ^ 31\<rparr>) 0 2
       = Aborted OverflowError
           (dsf_prefix (demo_hdr\<lparr>channel_num := 2 ^ 31, block_size := 2 ^ 31\<rparr>) 0 2
            @ data_head (demo_hdr\<lparr>channel_num := 2 ^ 31, block_size := 2 ^ 31\<rparr>) 0 2)
   \<and> read_dsf_header ''/music/album.dsf'' demo_src_8ch
       = Inr (demo_hdr\<lparr>channel_num := 8, block_size := 1\<rparr>)
   \<and> write_dsf_track demo_machine (take 88 demo_src_8ch)
         (demo_hdr\<lparr>channel_num := 8, block_size := 1\<rparr>) 0 (2 ^ 60)
       = Aborted MemoryError
           (dsf_prefix (demo_hdr\<lparr>channel_num := 8, block_size := 1\<rparr>) 0 (2 ^ 60)
            @ data_head (demo_hdr\<lparr>channel_num := 8, block_size := 1\<rparr>) 0 (2 ^ 60)
            @ ''01234567'')"
proof -
  have r1: "read_dsf_header ''/music/album.dsf'' demo_src_zero_rate
              = Inr (demo_hdr\<lparr>sample_rate := 0\<rparr>)"
    by code_simp
  have w1: "write_dsf_track demo_machine (take 88 demo_src_zero_rate)
         (demo_hdr\<lparr>sample_rate := 0\<rparr>) 0 2
       = Aborted ZeroDivisionError
           (dsf_prefix (demo_hdr\<lparr>sample_rate := 0\<rparr>) 0 2
            @ data_head (demo_hdr\<lparr>sample_rate := 0\<rparr>) 0 2
            @ ''01234567'' @ replicate 8 (CHR 0x00))"
    by code_simp
  have w2: "write_dsf_track demo_machine (take 88 demo_src) demo_hdr 0 (2 ^ 61)
       = Aborted StructError (''DSD '' @ le_bytes 8 28)"
    by (simp add: write_dsf_track_def w_pack_Q w_pack_I u64_def u32_def Let_def demo_hdr_def)
  have f3: "2 ^ 60 < (2 ^ 60 + 2 :: int)" "header_fits demo_hdr (2 ^ 60) (2 ^ 60 + 2)"
    "fmt_chunk_size demo_hdr \<le> 52"
    "seek_error demo_machine (src_data_start demo_hdr (2 ^ 60)) = Some (ValueError ''offset'')"
    by (simp_all add: header_fits_def demo_hdr_def u64_def u32_def new_total_size_def
        new_data_payload_def new_sample_count_def seek_error_def src_data_start_def
        ssize_max_def)
  have w3: "write_dsf_track demo_machine (take 88 demo_src) demo_hdr (2 ^ 60) (2 ^ 60 + 2)
       = Aborted (ValueError ''offset'')
           (dsf_prefix demo_hdr (2 ^ 60) (2 ^ 60 + 2) @ data_head demo_hdr (2 ^ 60) (2 ^ 60 + 2))"
    unfolding write_dsf_track_fits [OF f3(1,2)]
    using f3(3,4) by (simp add: w_fmt_extra_def write_rest_def)
  have r4: "read_dsf_header ''/music/album.dsf'' demo_src_long_fmt
       = Inr (demo_hdr\<lparr>fmt_chunk_size := 2 ^ 63 + 52\<rparr>)"
    by code_simp
  have f4: "(0 :: int) < 2" "header_fits (demo_hdr\<lparr>fmt_chunk_size := 2 ^ 63 + 52\<rparr>) 0 2"
    by (simp_all add: header_fits_def demo_hdr_def u64_def u32_def new_total_size_def
        new_data_payload_def new_sample_count_def)
  have w4: "write_dsf_track demo_machine (take 88 demo_src_long_fmt)
         (demo_hdr\<lparr>fmt_chunk_size := 2 ^ 63 + 52\<rparr>) 0 2
       = Aborted OverflowError (dsf_prefix (demo_hdr\<lparr>fmt_chunk_size := 2 ^ 63 + 52\<rparr>) 0 2)"
    unfolding write_dsf_track_fits [OF f4]
    by (simp add: w_fmt_extra_def seek_error_def src_read_def alloc_error_def ssize_max_def
        demo_machine_def demo_hdr_def)
  have r5: "read_dsf_header ''/music/album.dsf'' demo_src_wide_frame
       = Inr (demo_hdr\<lparr>channel_num := 2 ^ 31, block_size := 2 ^ 31\<rparr>)"
    by code_simp
  have f5: "(0 :: int) < 2"
    "header_fits (demo_hdr\<lparr>channel_num := 2 ^ 31, block_size := 2 ^ 31\<rparr>) 0 2"
    by (simp_all add: header_fits_def demo_hdr_def u64_def u32_def new_total_size_def
        new_data_payload_def new_sample_count_def)
  have c5: "copy_result demo_machine (take 88 demo_src_wide_frame)
              (demo_hdr\<lparr>channel_num := 2 ^ 31, block_size := 2 ^ 31\<rparr>) 0 2
            = (Some OverflowError, [])"
    unfolding copy_result_def
    by (subst copy_blocks.simps)
      (simp add: new_data_payload_def demo_hdr_def src_read_def alloc_error_def ssize_max_def)
  have w5: "write_dsf_track demo_machine (take 88 demo_src_wide_frame)
         (demo_hdr\<lparr>channel_num := 2 ^ 31, block_size := 2 ^ 31\<rparr>) 0 2
       = Aborted OverflowError
           (dsf_prefix (demo_hdr\<lparr>channel_num := 2 ^ 31, block_size := 2 ^ 31\<rparr>) 0 2
            @ data_head (demo_hdr\<lparr>channel_num := 2 ^ 31, block_size := 2 ^ 31\<rparr>) 0 2)"
    unfolding write_dsf_track_fits [OF f5]
    using c5 by (simp add: w_fmt_extra_def write_rest_def seek_error_def src_data_start_def
        ssize_max_def demo_machine_def demo_hdr_def)
  have r6: "read_dsf_header ''/music/album.dsf'' demo_src_8ch
       = Inr (demo_hdr\<lparr>channel_num := 8, block_size := 1\<rparr>)"
    by code_simp
  have f6: "(0 :: int) < 2 ^ 60"
    "header_fits (demo_hdr\<lparr>channel_num := 8, block_size := 1\<rparr>) 0 (2 ^ 60)"
    by (simp_all add: header_fits_def demo_hdr_def u64_def u32_def new_total_size_def
        new_data_payload_def new_sample_count_def)
  have s6: "drop 80 (take 88 demo_src_8ch) = ''01234567''"
    by code_simp
  have rd6: "src_read demo_machine 512 ''01234567'' = Inr (''01234567'', [])"
    "src_read demo_machine 512 [] = Inr ([], [])"
    by (simp_all add: src_read_def alloc_error_def ssize_max_def demo_machine_def f_read_def)
  have c6: "copy_result demo_machine (take 88 demo_src_8ch)
              (demo_hdr\<lparr>channel_num := 8, block_size := 1\<rparr>) 0 (2 ^ 60)
            = (Some MemoryError, ''01234567'')"
    unfolding copy_result_def
    apply (subst copy_blocks.simps)
    apply (simp add: new_data_payload_def demo_hdr_def src_data_start_def s6 rd6)
    apply (subst copy_blocks.simps)
    apply (simp add: rd6 zero_bytes_def ssize_max_def)
    done
  have w6: "write_dsf_track demo_machine (take 88 demo_src_8ch)
         (demo_hdr\<lparr>channel_num := 8, block_size := 1\<rparr>) 0 (2 ^ 60)
       = Aborted MemoryError
           (dsf_prefix (demo_hdr\<lparr>channel_num := 8, block_size := 1\<rparr>) 0 (2 ^ 60)
            @ data_head (demo_hdr\<lparr>channel_num := 8, block_size := 1\<rparr>) 0 (2 ^ 60)
            @ ''01234567'')"
    unfolding write_dsf_track_fits [OF f6]
    using c6 by (simp add: w_fmt_extra_def write_rest_def seek_error_def src_data_start_def
        ssize_max_def demo_machine_def demo_hdr_def)
  from r1 w1 w2 w3 r4 w4 r5 w5 r6 w6 show ?thesis by (intro conjI)
qed

text \<open>
  C6 (amended): for a descriptor read by \<open>read_dsf_header\<close> with a non-zero sample
  rate and a block range \<open>0 \<le> start_block < end_block\<close> whose new total size and new
  sample count are below \<open>2 ^ 64\<close>, on a machine that accepts the seek to
  \<open>data_offset + start_block * frame_size\<close> and allocates the buffers of the copy
  (the \<open>fmt_chunk_size - 52\<close> extra format bytes, a chunk of 64 frames or of the whole
  payload if that is less, and the zero bytes for what the source does not supply),
  \<open>write_dsf_track\<close> completes, whatever the source holds: the output is the header
  followed by a payload of exactly \<open>(end_block - start_block) * frame_size\<close> bytes,
  which are the bytes the source supplies from \<open>data_offset + start_block *
  frame_size\<close> on, followed by zero bytes for those it does not supply.
\<close>

theorem truncated_source_zero_fill:
  assumes "read_dsf_header p f = Inr h" "0 \<le> start_block" "start_block < end_block"
    "sample_rate h \<noteq> 0"
    "new_total_size h start_block end_block < 2 ^ 64"
    "new_sample_count h start_block end_block < 2 ^ 64"
    "data_offset h + start_block * (block_size h * channel_num h) \<le> seek_limit m"
    "fmt_chunk_size h - 52 \<le> alloc_limit m"
    "min (block_size h * channel_num h * 64)
         ((end_block - start_block) * (block_size h * channel_num h)) \<le> alloc_limit m"
    "(end_block - start_block) * (block_size h * channel_num h)
       - int (length (supplied src h start_block end_block)) \<le> alloc_limit m"
  shows "write_dsf_track m src h start_block end_block
      = Written ((dsf_prefix h start_block end_block @ fmt_extra src h
                    @ data_head h start_block end_block)
                 @ supplied src h start_block end_block
                 @ replicate (nat ((end_block - start_block) * (block_size h * channel_num h))
                                - length (supplied src h start_block end_block)) (CHR 0x00))
     \<and> length (supplied src h start_block end_block
                 @ replicate (nat ((end_block - start_block) * (block_size h * channel_num h))
                                - length (supplied src h start_block end_block)) (CHR 0x00))
         = nat ((end_block - start_block) * (block_size h * channel_num h))
     \<and> supplied src h start_block end_block
         = take (nat ((end_block - start_block) * (block_size h * channel_num h)))
             (drop (nat (data_offset h + start_block * (block_size h * channel_num h))) src)"
proof -
  note r = read_header_ranges [OF assms(1)]
  have bs: "0 \<le> block_size h" and cn: "0 \<le> channel_num h"
    using r by (simp_all add: u32_def)
  have fits: "header_fits h start_block end_block"
    by (rule read_header_fits [OF assms(1,3,5,6)])
  have nn: "0 \<le> start_block * (block_size h * channel_num h)"
    using assms(2) bs cn by (intro mult_nonneg_nonneg)
  then have sk: "seek_error m (src_data_start h start_block) = None"
    using r(9) assms(7) by (simp add: seek_error_None src_data_start_def)
  have s80: "80 \<le> seek_limit m"
    using nn r(9) assms(7) by simp
  have cr: "copy_result m src h start_block end_block
    = (None, supplied src h start_block end_block
        @ replicate (nat (new_data_payload h start_block end_block)
                       - length (supplied src h start_block end_block)) (CHR 0x00))"
    using assms(9,10) by (intro copy_result_eq [OF assms(3) bs cn]) (simp_all add: new_data_payload_def)
  have w: "write_dsf_track m src h start_block end_block
      = Written ((dsf_prefix h start_block end_block @ fmt_extra src h
                 @ data_head h start_block end_block)
                 @ supplied src h start_block end_block
        @ replicate (nat (new_data_payload h start_block end_block)
                       - length (supplied src h start_block end_block)) (CHR 0x00))"
    unfolding write_dsf_track_fits [OF assms(3) fits] w_fmt_extra_ok [OF s80 assms(8)]
    using assms(4) by (simp add: write_rest_def sk cr)
  have len: "length (supplied src h start_block end_block)
               \<le> nat (new_data_payload h start_block end_block)"
    by (simp add: supplied_def)
  show ?thesis
    using len
    by (simp add: w new_data_payload_def supplied_def src_data_start_def)
qed

theorem truncated_source_zero_fill_witness:
  "length (drop 80 (take 88 demo_src)) = 8
   \<and> write_dsf_track demo_machine (take 88 demo_src) demo_hdr 0 2
       = Written ((dsf_prefix demo_hdr 0 2 @ data_head demo_hdr 0 2)
                  @ ''01234567'' @ replicate 8 (CHR 0x00))"
proof -
  have s: "supplied (take 88 demo_src) demo_hdr 0 2 = ''01234567''"
    "fmt_extra (take 88 demo_src) demo_hdr = []"
    "new_total_size demo_hdr 0 2 < 2 ^ 64" "new_sample_count demo_hdr 0 2 < 2 ^ 64"
    "sample_rate demo_hdr \<noteq> 0" "length (drop 80 (take 88 demo_src)) = 8"
    "nat ((2 - 0) * (block_size demo_hdr * channel_num demo_hdr)) = 16"
    by code_simp+
  have l: "data_offset demo_hdr + 0 * (block_size demo_hdr * channel_num demo_hdr)
             \<le> seek_limit demo_machine"
    "fmt_chunk_size demo_hdr - 52 \<le> alloc_limit demo_machine"
    "min (block_size demo_hdr * channel_num demo_hdr * 64)
         ((2 - 0) * (block_size demo_hdr * channel_num demo_hdr)) \<le> alloc_limit demo_machine"
    "(2 - 0) * (block_size demo_hdr * channel_num demo_hdr)
       - int (length (supplied (take 88 demo_src) demo_hdr 0 2)) \<le> alloc_limit demo_machine"
    by code_simp+
  from truncated_source_zero_fill [OF demo_src_read _ _ s(5) s(3,4) l] s
  show ?thesis by simp
qed

section \<open>Block math: the rounding error and the exact value\<close>

lemma pow2_nonneg [simp]: "0 \<le> pow2 e"
  by (simp add: less_imp_le)

lemma pow2_neq_0 [simp]: "pow2 e \<noteq> 0"
  using pow2_pos [of e] by (simp del: pow2_pos)




















end
